theory Spec2Isabelle
  imports Complex_Main "HOL-Library.AList"
begin

section \<open>JavaScript values used by the trackers\<close>

text \<open>
  A JavaScript number is an IEEE double: not-a-number, one of the two infinities, or a
  finite value, which is a rational. Only the order of doubles is used below, and the order
  of finite doubles is the order of the rationals they denote.
\<close>

datatype jsnum = NaN | NegInf | Fin rat | PosInf

text \<open>The operator \<open>a > b\<close> on numbers: false as soon as one side is NaN.\<close>

fun jgt :: "jsnum \<Rightarrow> jsnum \<Rightarrow> bool" where
  "jgt NaN b = False"
| "jgt a NaN = False"
| "jgt NegInf b = False"
| "jgt (Fin x) NegInf = True"
| "jgt (Fin x) (Fin y) = (y < x)"
| "jgt (Fin x) PosInf = False"
| "jgt PosInf PosInf = False"
| "jgt PosInf b = True"

text \<open>The operator \<open>a >= b\<close> on numbers.\<close>

definition jge :: "jsnum \<Rightarrow> jsnum \<Rightarrow> bool" where
  "jge a b = (a \<noteq> NaN \<and> b \<noteq> NaN \<and> \<not> jgt b a)"

text \<open>
  The sign of the double \<open>a - b\<close>, which is all that \<open>Array.prototype.sort\<close> reads of
  a comparator's result: \<open>1\<close>, \<open>-1\<close>, or \<open>0\<close> when the difference is zero or NaN
  (a NaN operand, or two infinities of the same sign). Subtraction of finite doubles rounds,
  but never across zero.
\<close>

definition jsub_sign :: "jsnum \<Rightarrow> jsnum \<Rightarrow> int" where
  "jsub_sign a b = (if jgt a b then 1 else if jgt b a then - 1 else 0)"

text \<open>\<open>s || "0"\<close> on a string: the empty string is falsy.\<close>

definition or_zero :: "string \<Rightarrow> string" where
  "or_zero s = (if s = [] then ''0'' else s)"

text \<open>\<open>String.prototype.toLowerCase\<close> and \<open>trim\<close>, on ASCII text.\<close>

definition toLowerCase_chr :: "char \<Rightarrow> char" where
  "toLowerCase_chr c =
     (case map_of (zip ''ABCDEFGHIJKLMNOPQRSTUVWXYZ'' ''abcdefghijklmnopqrstuvwxyz'') c of
        Some l \<Rightarrow> l
      | None \<Rightarrow> c)"

definition toLowerCase :: "string \<Rightarrow> string" where
  "toLowerCase s = map toLowerCase_chr s"

definition is_ws :: "char \<Rightarrow> bool" where
  "is_ws c = (c \<in> set [CHR '' '', CHR 0x09, CHR 0x0A, CHR 0x0B, CHR 0x0C, CHR 0x0D])"

definition trim :: "string \<Rightarrow> string" where
  "trim s = rev (dropWhile is_ws (rev (dropWhile is_ws s)))"

text \<open>Decimal digits and the number that a run of them writes.\<close>

definition digit_of :: "char \<Rightarrow> nat option" where
  "digit_of c = map_of (zip ''0123456789'' [0, 1, 2, 3, 4, 5, 6, 7, 8, 9]) c"

definition is_digit :: "char \<Rightarrow> bool" where
  "is_digit c = (digit_of c \<noteq> None)"

definition digits_val :: "string \<Rightarrow> nat" where
  "digits_val s = foldl (\<lambda>n c. 10 * n + (case digit_of c of Some d \<Rightarrow> d | None \<Rightarrow> 0)) 0 s"

text \<open>The base58 text of the native asset's mint (CONSTANTS.ts, price\_final.ts).\<close>

definition SOL_MINT :: string where
  "SOL_MINT = ''So11111111111111111111111111111111111111112''"

text \<open>
  The outcome of an HTTP request that the source wraps in \<open>try\<close>: a non-ok status, a
  network error and a body of the wrong shape all end in the \<open>catch\<close>.
\<close>

datatype 'a fetched = FetchFailed | FetchOk 'a

section \<open>Constant-product tracker: pool records, discovery, selection\<close>

record PoolData =
  pool_address :: string
  token_a_mint :: string
  token_b_mint :: string
  token_a_amount :: string
  token_b_amount :: string
  tvl :: string
  fee_bps :: jsnum
  token_a_symbol :: "string option"
  token_b_symbol :: "string option"
  pool_price :: "string option"

text \<open>
  The body of \<open>for (const pool of pools)\<close>: the state is \<open>matchedPools\<close> and
  \<open>seenPoolIds\<close>.
\<close>

fun scan_page :: "PoolData list \<Rightarrow> PoolData list \<times> string set \<Rightarrow> PoolData list \<times> string set" where
  "scan_page [] st = st"
| "scan_page (pool # rest) (matchedPools, seenPoolIds) =
     (if pool_address pool \<notin> seenPoolIds
         \<and> SOL_MINT \<in> set [token_a_mint pool, token_b_mint pool]
      then scan_page rest (matchedPools @ [pool], insert (pool_address pool) seenPoolIds)
      else scan_page rest (matchedPools, seenPoolIds))"

text \<open>
  The \<open>while (true)\<close> of one query field. The index is a function of the query field, the
  token and the offset; the loop ends at an empty page or at a failure, and it does not end
  while the index keeps answering with non-empty pages: then the value is \<open>None\<close>.
\<close>

partial_function (option) fetch_pages ::
  "(string \<Rightarrow> string \<Rightarrow> nat \<Rightarrow> PoolData list fetched) \<Rightarrow> string \<Rightarrow> string \<Rightarrow> nat
     \<Rightarrow> PoolData list \<times> string set \<Rightarrow> (PoolData list \<times> string set) option" where
  "fetch_pages api field token offset st =
     (case api field token offset of
        FetchFailed \<Rightarrow> Some st
      | FetchOk pools \<Rightarrow>
          if pools = [] then Some st
          else fetch_pages api field token (offset + 50) (scan_page pools st))"

definition fetchSolTokenPools ::
  "(string \<Rightarrow> string \<Rightarrow> nat \<Rightarrow> PoolData list fetched) \<Rightarrow> string \<Rightarrow> PoolData list option" where
  "fetchSolTokenPools api token =
     (case fetch_pages api ''token_a_mint'' token 0 ([], {}) of
        None \<Rightarrow> None
      | Some st \<Rightarrow>
          (case fetch_pages api ''token_b_mint'' token 0 st of
             None \<Rightarrow> None
           | Some st' \<Rightarrow> Some (fst st')))"

text \<open>
  \<open>pools.reduce((max, curr) => parseFloat(curr.tvl || "0") > parseFloat(max.tvl || "0")
  ? curr : max)\<close> with no initial value: the first pool starts as \<open>max\<close>. The library
  function \<open>parseFloat\<close> is the parameter \<open>pf\<close>.
\<close>

definition findHighestTvlPool :: "(string \<Rightarrow> jsnum) \<Rightarrow> PoolData list \<Rightarrow> PoolData option" where
  "findHighestTvlPool pf pools =
     (case pools of
        [] \<Rightarrow> None
      | p # ps \<Rightarrow>
          Some (foldl (\<lambda>max curr.
                  if jgt (pf (or_zero (tvl curr))) (pf (or_zero (tvl max))) then curr else max)
                p ps))"

section \<open>Bin-model tracker: pool records, discovery, selection\<close>

record DlmmPoolData =
  address :: string
  name :: string
  mint_x :: string
  mint_y :: string
  reserve_x_amount :: jsnum
  reserve_y_amount :: jsnum
  bin_step :: jsnum
  liquidity :: string
  current_price :: jsnum
  mint_x_symbol :: "string option"
  mint_y_symbol :: "string option"

definition usable_pool :: "(string \<Rightarrow> jsnum) \<Rightarrow> string \<Rightarrow> DlmmPoolData \<Rightarrow> bool" where
  "usable_pool pf tokenAddress pool =
     (let tokenAddressStr = trim (toLowerCase tokenAddress);
          solAddressStr = toLowerCase SOL_MINT;
          mintX = trim (toLowerCase (mint_x pool));
          mintY = trim (toLowerCase (mint_y pool));
          liq = pf (or_zero (liquidity pool));
          isSolToToken = ((mintX = solAddressStr \<and> mintY = tokenAddressStr)
                          \<or> (mintY = solAddressStr \<and> mintX = tokenAddressStr));
          hasLiquidity = jgt liq (Fin 0);
          hasReserves = (jgt (reserve_x_amount pool) (Fin 0) \<and> jgt (reserve_y_amount pool) (Fin 0))
      in isSolToToken \<and> hasLiquidity \<and> hasReserves)"

text \<open>The bin-model discovery: one request for all pools, the loop keeps the usable ones.\<close>

definition fetchSolTokenPools_dlmm ::
  "(string \<Rightarrow> jsnum) \<Rightarrow> DlmmPoolData list fetched \<Rightarrow> string \<Rightarrow> DlmmPoolData list" where
  "fetchSolTokenPools_dlmm pf response tokenAddress =
     (case response of
        FetchFailed \<Rightarrow> []
      | FetchOk allPools \<Rightarrow> filter (usable_pool pf tokenAddress) allPools)"

text \<open>
  \<open>Array.prototype.sort\<close> is stable, and it places \<open>a\<close> before \<open>b\<close> when the
  comparator's result is negative and keeps their order when it is zero or NaN. It is
  modelled by a stable insertion sort; with a comparator that is not a consistent order the
  language leaves the result to the engine.
\<close>

fun insert_by :: "('a \<Rightarrow> 'a \<Rightarrow> int) \<Rightarrow> 'a \<Rightarrow> 'a list \<Rightarrow> 'a list" where
  "insert_by c x [] = [x]"
| "insert_by c x (y # ys) = (if c x y \<le> 0 then x # y # ys else y # insert_by c x ys)"

definition js_sort :: "('a \<Rightarrow> 'a \<Rightarrow> int) \<Rightarrow> 'a list \<Rightarrow> 'a list" where
  "js_sort c xs = foldr (insert_by c) xs []"

text \<open>The comparator \<open>(a, b) => liquidityB - liquidityA\<close>.\<close>

definition by_liquidity_desc :: "(string \<Rightarrow> jsnum) \<Rightarrow> DlmmPoolData \<Rightarrow> DlmmPoolData \<Rightarrow> int" where
  "by_liquidity_desc pf a b =
     (let liquidityA = pf (or_zero (liquidity a));
          liquidityB = pf (or_zero (liquidity b))
      in jsub_sign liquidityB liquidityA)"

definition findHighestLiquidityPool ::
  "(string \<Rightarrow> jsnum) \<Rightarrow> DlmmPoolData list \<Rightarrow> DlmmPoolData option" where
  "findHighestLiquidityPool pf pools =
     (if length pools = 0 then None
      else (case js_sort (by_liquidity_desc pf) pools of
              [] \<Rightarrow> None
            | p # _ \<Rightarrow> Some p))"

section \<open>Decimal arithmetic of bignumber.js\<close>

text \<open>
  A BigNumber is NaN, an infinity (the flag says negative) or a finite decimal, held as the
  rational it denotes; the sign of a zero is not kept. The library runs with its defaults:
  a division keeps \<open>DECIMAL_PLACES = 20\<close> decimals and rounds half away from zero
  (\<open>ROUND_HALF_UP\<close>); products and non-negative integer powers are exact.
\<close>

datatype bignum = BigNaN | BigInf bool | Big rat

definition DECIMAL_PLACES :: nat where
  "DECIMAL_PLACES = 20"

definition round_half_up :: "nat \<Rightarrow> rat \<Rightarrow> rat" where
  "round_half_up dp x =
     (if 0 \<le> x then of_int \<lfloor>x * 10 ^ dp + 1 / 2\<rfloor> / 10 ^ dp
      else - (of_int \<lfloor>- x * 10 ^ dp + 1 / 2\<rfloor> / 10 ^ dp))"

fun dividedBy :: "bignum \<Rightarrow> bignum \<Rightarrow> bignum" where
  "dividedBy BigNaN y = BigNaN"
| "dividedBy x BigNaN = BigNaN"
| "dividedBy (BigInf s) (BigInf t) = BigNaN"
| "dividedBy (BigInf s) (Big y) = BigInf (s \<noteq> (y < 0))"
| "dividedBy (Big x) (BigInf t) = Big 0"
| "dividedBy (Big x) (Big y) =
     (if y = 0 then (if x = 0 then BigNaN else BigInf (x < 0))
      else Big (round_half_up DECIMAL_PLACES (x / y)))"

fun multipliedBy :: "bignum \<Rightarrow> bignum \<Rightarrow> bignum" where
  "multipliedBy BigNaN y = BigNaN"
| "multipliedBy x BigNaN = BigNaN"
| "multipliedBy (BigInf s) (BigInf t) = BigInf (s \<noteq> t)"
| "multipliedBy (BigInf s) (Big y) = (if y = 0 then BigNaN else BigInf (s \<noteq> (y < 0)))"
| "multipliedBy (Big x) (BigInf t) = (if x = 0 then BigNaN else BigInf (t \<noteq> (x < 0)))"
| "multipliedBy (Big x) (Big y) = Big (x * y)"

text \<open>
  \<open>new BigNumber(10).pow(n)\<close> for an integer \<open>n\<close>: the exact power when \<open>n\<close> is not
  negative, and one divided by the exact power of \<open>-n\<close> otherwise.
\<close>

definition pow10 :: "int \<Rightarrow> bignum" where
  "pow10 n = (if 0 \<le> n then Big (10 ^ nat n) else dividedBy (Big 1) (Big (10 ^ nat (- n))))"

definition isZero :: "bignum \<Rightarrow> bool" where
  "isZero x = (x = Big 0)"

section \<open>Calls to the chain and the SDK, with their exceptions\<close>

datatype exn = Error string

datatype call =
    FetchPoolState string
  | GetMint string
  | GetEpochInfo
  | GetSlot
  | GetQuote
  | DlmmCreate string
  | GetBinArrayForSwap
  | SwapQuote

text \<open>
  An asynchronous computation of the trackers: the calls it made, in order, and either the
  exception it threw or its value.
\<close>

type_synonym 'a io = "call list \<times> (exn + 'a)"

definition ret :: "'a \<Rightarrow> 'a io" where
  "ret x = ([], Inr x)"

definition perform :: "call \<Rightarrow> exn + 'a \<Rightarrow> 'a io" where
  "perform c outcome = ([c], outcome)"

definition bindM :: "'a io \<Rightarrow> ('a \<Rightarrow> 'b io) \<Rightarrow> 'b io" where
  "bindM m f =
     (case m of
        (cs, Inl e) \<Rightarrow> (cs, Inl e)
      | (cs, Inr x) \<Rightarrow> (case f x of (cs', r) \<Rightarrow> (cs @ cs', r)))"

text \<open>
  \<open>Promise.all\<close> of two requests: both are issued, and the result is an exception as
  soon as one of them fails.
\<close>

definition both :: "'a io \<Rightarrow> 'b io \<Rightarrow> ('a \<times> 'b) io" where
  "both m n =
     (case (m, n) of
        ((cs, r), (cs', r')) \<Rightarrow>
          (cs @ cs',
           case r of
             Inl e \<Rightarrow> Inl e
           | Inr x \<Rightarrow> (case r' of Inl e \<Rightarrow> Inl e | Inr y \<Rightarrow> Inr (x, y))))"

text \<open>
  The values that the result records hold. A formatted number stands for the text it is the
  formatting of: \<open>BigFixed x n\<close> is \<open>x.toFixed(n)\<close> of a BigNumber, \<open>NumFixed x n\<close> is
  \<open>x.toFixed(n)\<close> of a number and \<open>NumRounded x n\<close> is \<open>parseFloat(x.toFixed(n))\<close>.
\<close>

datatype jsval =
    Undefined
  | Null
  | Str string
  | Num jsnum
  | BigFixed bignum nat
  | NumFixed jsnum nat
  | NumRounded jsnum nat

text \<open>An object with its own keys in the order the language enumerates them.\<close>

type_synonym jsrecord = "(string \<times> jsval) list"

section \<open>Constant-product tracker: one pass\<close>

text \<open>
  What \<open>cpAmm.fetchPoolState\<close> resolves to: nothing, an object without keys, or a state
  with its square-root price.
\<close>

datatype pool_state = StateMissing | StateEmpty | State nat

record Quote =
  swapOutAmount :: nat
  totalFee :: nat

record quote_params =
  inAmount :: nat
  inputTokenMint :: string
  inputMintDecimals :: nat
  inputCurrentEpoch :: nat
  outputMintDecimals :: nat
  outputCurrentEpoch :: nat
  slippage :: rat
  quotedSqrtPrice :: nat
  currentSlot :: nat
  currentTime :: nat

text \<open>
  Everything outside the tracker during one pass: the pool index, the chain client, the
  SDK's quoting and pricing functions, the clock, and \<open>parseFloat\<close>. \<open>getMint\<close> stands
  for \<open>getMint(connection, new PublicKey(address))\<close> and yields the mint's decimals;
  \<open>fetchPoolState\<close> likewise includes the construction of the key.
\<close>

record cp_world =
  parseFloat :: "string \<Rightarrow> jsnum"
  pool_index :: "string \<Rightarrow> string \<Rightarrow> nat \<Rightarrow> PoolData list fetched"
  fetchPoolState :: "string \<Rightarrow> exn + pool_state"
  getMint :: "string \<Rightarrow> exn + nat"
  getEpochInfo :: "exn + nat"
  getSlot :: "exn + nat"
  getQuote :: "quote_params \<Rightarrow> exn + Quote"
  getPriceFromSqrtPrice :: "nat \<Rightarrow> nat \<Rightarrow> nat \<Rightarrow> bignum"
  date_now :: nat

text \<open>
  The local variables of \<open>getRealtimeSwapPrice\<close> when it reaches its last \<open>return\<close>.
  A mint is held as its decimals, the only field of it that is read.
\<close>

record locals =
  isSolOutput :: bool
  inputMint :: nat
  outputMint :: nat
  quote :: Quote
  amountOut :: bignum
  feeMint :: nat
  fee :: bignum
  tokenAMint :: nat
  tokenBMint :: nat
  rawPrice :: bignum
  finalPrice :: bignum

text \<open>Lines 95 to 146: from \<open>isSolOutput\<close> to \<open>finalPrice\<close>.\<close>

definition quote_locals :: "cp_world \<Rightarrow> string \<Rightarrow> PoolData \<Rightarrow> nat \<Rightarrow> locals io" where
  "quote_locals w tokenAddress pool sqrtPrice =
     (let isSolOutput' = (token_a_mint pool \<noteq> SOL_MINT);
          outputAddress = (if isSolOutput' then token_a_mint pool else token_b_mint pool)
      in
      bindM (both (perform (GetMint SOL_MINT) (getMint w SOL_MINT))
                  (perform (GetMint outputAddress) (getMint w outputAddress)))
        (\<lambda>(inputMint', outputMint').
      bindM (perform GetEpochInfo (getEpochInfo w)) (\<lambda>epochIn.
      bindM (perform GetEpochInfo (getEpochInfo w)) (\<lambda>epochOut.
      bindM (perform GetSlot (getSlot w)) (\<lambda>slot.
      bindM (perform GetQuote (getQuote w
               \<lparr>inAmount = 1000000000, inputTokenMint = SOL_MINT,
                inputMintDecimals = inputMint', inputCurrentEpoch = epochIn,
                outputMintDecimals = outputMint', outputCurrentEpoch = epochOut,
                slippage = 1 / 2, quotedSqrtPrice = sqrtPrice, currentSlot = slot,
                currentTime = date_now w div 1000\<rparr>)) (\<lambda>quote'.
      let amountOut' = dividedBy (Big (of_nat (swapOutAmount quote'))) (pow10 (int outputMint'));
          feeMint' = (if isSolOutput' then inputMint' else outputMint');
          fee' = dividedBy (Big (of_nat (totalFee quote'))) (pow10 (int feeMint'))
      in
      bindM (both (perform (GetMint (token_a_mint pool)) (getMint w (token_a_mint pool)))
                  (perform (GetMint (token_b_mint pool)) (getMint w (token_b_mint pool))))
        (\<lambda>(tokenAMint', tokenBMint').
      let rawPrice' = getPriceFromSqrtPrice w sqrtPrice tokenAMint' tokenBMint';
          finalPrice' = (if tokenAddress = token_a_mint pool
                         then dividedBy (Big 1) rawPrice' else rawPrice')
      in ret \<lparr>isSolOutput = isSolOutput', inputMint = inputMint', outputMint = outputMint',
               quote = quote', amountOut = amountOut', feeMint = feeMint', fee = fee',
               tokenAMint = tokenAMint', tokenBMint = tokenBMint', rawPrice = rawPrice',
               finalPrice = finalPrice'\<rparr>)))))))"

text \<open>
  The record of the last \<open>return\<close>; the price, the fee and the price impact are commented
  out in the source and are not part of it.
\<close>

definition observation :: "cp_world \<Rightarrow> string \<Rightarrow> PoolData \<Rightarrow> locals \<Rightarrow> jsrecord" where
  "observation w tokenAddress pool l =
     [(''pool_address'', Str (pool_address pool)),
      (''amount_out_for_1_SOL'', BigFixed (amountOut l) 6),
      (''total_tvl'', NumFixed (parseFloat w (or_zero (tvl pool))) 2),
      (''token_symbol'',
         (case (if tokenAddress = token_a_mint pool then token_a_symbol pool
                else token_b_symbol pool) of
            None \<Rightarrow> Undefined
          | Some s \<Rightarrow> Str s)),
      (''token_address'', Str tokenAddress)]"

text \<open>
  \<open>SwapPriceTracker.getRealtimeSwapPrice\<close>. The value is \<open>None\<close> when the discovery
  never comes back.
\<close>

definition getRealtimeSwapPrice :: "cp_world \<Rightarrow> string \<Rightarrow> jsrecord io option" where
  "getRealtimeSwapPrice w tokenAddress =
     (case fetchSolTokenPools (pool_index w) tokenAddress of
        None \<Rightarrow> None
      | Some pools \<Rightarrow>
          Some (case findHighestTvlPool (parseFloat w) pools of
                  None \<Rightarrow> ret [(''error'', Str ''No SOL-token pool found.'')]
                | Some pool \<Rightarrow>
                    bindM (perform (FetchPoolState (pool_address pool))
                             (fetchPoolState w (pool_address pool))) (\<lambda>poolState.
                    case poolState of
                      StateMissing \<Rightarrow>
                        ret [(''error'', Str ''Failed to fetch or parse valid pool state.'')]
                    | StateEmpty \<Rightarrow>
                        ret [(''error'', Str ''Failed to fetch or parse valid pool state.'')]
                    | State sqrtPrice \<Rightarrow>
                        bindM (quote_locals w tokenAddress pool sqrtPrice) (\<lambda>l.
                        ret (observation w tokenAddress pool l)))))"

section \<open>Presentation and persistence\<close>

definition displayNames :: "(string \<times> string) list" where
  "displayNames =
     [(''token_address'', ''MintB''),
      (''token_symbol'', ''Symbol name''),
      (''pool_address'', ''Pool address''),
      (''total_tvl'', ''TVL''),
      (''amount_out_for_1_SOL'', ''Price''),
      (''fee'', ''Paid to Liquidity Provider''),
      (''price_from_sqrt_price'', ''Current Pool Price''),
      (''price_impact'', ''Price Impact'')]"

text \<open>\<open>displayNames[key] || key\<close>.\<close>

definition display_key :: "string \<Rightarrow> string" where
  "display_key key =
     (case map_of displayNames key of
        None \<Rightarrow> key
      | Some d \<Rightarrow> if d = [] then key else d)"

text \<open>
  The own keys of an object in the order the language enumerates them: first the keys that
  are array indices (canonical decimal texts below \<open>2^32 - 1\<close>) in ascending order, then
  the other keys in the order of their creation. An assignment to a key that is already
  there replaces its value and keeps its place.
\<close>

definition is_index_key :: "string \<Rightarrow> bool" where
  "is_index_key key =
     (key \<noteq> [] \<and> list_all is_digit key \<and> (key = ''0'' \<or> take 1 key \<noteq> ''0'')
      \<and> digits_val key < 4294967295)"

fun insert_index :: "string \<Rightarrow> jsval \<Rightarrow> jsrecord \<Rightarrow> jsrecord" where
  "insert_index key v [] = [(key, v)]"
| "insert_index key v ((k, x) # rest) =
     (if is_index_key k \<and> digits_val k < digits_val key then (k, x) # insert_index key v rest
      else (key, v) # (k, x) # rest)"

definition js_assign :: "string \<Rightarrow> jsval \<Rightarrow> jsrecord \<Rightarrow> jsrecord" where
  "js_assign key v obj =
     (if map_of obj key \<noteq> None then AList.update key v obj
      else if is_index_key key then insert_index key v obj
      else obj @ [(key, v)])"

text \<open>The loop that fills \<open>formatted\<close>.\<close>

definition format_result :: "jsrecord \<Rightarrow> jsrecord" where
  "format_result result =
     foldl (\<lambda>formatted (key, v). js_assign (display_key key) v formatted) [] result"

text \<open>\<open>printFormattedResult\<close>: one line per key, the display name and the value.\<close>

definition printFormattedResult :: "jsrecord \<Rightarrow> (string \<times> jsval) list" where
  "printFormattedResult result = map (\<lambda>(key, v). (display_key key, v)) result"

text \<open>
  JSON values as \<open>JSON.parse\<close> yields them and \<open>JSON.stringify\<close> writes them; a text
  written by \<open>JSON.stringify\<close> parses back to the value it was written from.
\<close>

datatype json = JLeaf jsval | JArr "json list" | JObj "(string \<times> json) list"

text \<open>
  What a path of the disk holds: nothing, a text that \<open>JSON.parse\<close> rejects, or the text
  of a JSON value. Whether the process may read and may write a path are permissions of the
  path, which a write does not change: \<open>readFileSync\<close> throws on a path that is not
  readable, before and after the file is rewritten, and \<open>writeFileSync\<close> throws on a
  path that is not writable.
\<close>

datatype file_state = Absent | Unparseable | Parsed json

record fsys =
  files :: "string \<Rightarrow> file_state"
  readable :: "string \<Rightarrow> bool"
  writable :: "string \<Rightarrow> bool"

text \<open>\<open>{ timestamp: new Date().toISOString(), ...formatted }\<close>.\<close>

definition new_entry :: "string \<Rightarrow> jsrecord \<Rightarrow> jsrecord" where
  "new_entry stamp formatted =
     foldl (\<lambda>entry (key, v). js_assign key v entry) [(''timestamp'', Str stamp)] formatted"

text \<open>What \<open>JSON.stringify\<close> keeps of an object: the keys whose value is not undefined.\<close>

definition entry_json :: "jsrecord \<Rightarrow> json" where
  "entry_json entry = JObj (map (\<lambda>(key, v). (key, JLeaf v)) (filter (\<lambda>(key, v). v \<noteq> Undefined) entry))"

text \<open>
  The array that \<open>saveFormattedResultToJson\<close> starts from: empty when the file does not
  exist, when reading or parsing it throws, and when the parsed value is not an array.
\<close>

definition read_array :: "fsys \<Rightarrow> string \<Rightarrow> json list" where
  "read_array fs filename =
     (case files fs filename of
        Absent \<Rightarrow> []
      | Unparseable \<Rightarrow> []
      | Parsed j \<Rightarrow>
          if \<not> readable fs filename then []
          else (case j of JArr items \<Rightarrow> items | _ \<Rightarrow> []))"

text \<open>
  \<open>saveFormattedResultToJson\<close>, with the clock's ISO text as a parameter. Only
  \<open>writeFileSync\<close> is outside a \<open>try\<close>.
\<close>

definition saveFormattedResultToJson :: "string \<Rightarrow> jsrecord \<Rightarrow> string \<Rightarrow> fsys \<Rightarrow> exn + fsys" where
  "saveFormattedResultToJson stamp result filename fs =
     (let formatted = format_result result;
          dataArray = read_array fs filename;
          dataArray' = dataArray @ [entry_json (new_entry stamp formatted)]
      in if writable fs filename
         then Inr (fs\<lparr>files := (files fs)(filename := Parsed (JArr dataArray'))\<rparr>)
         else Inl (Error ''EACCES: permission denied''))"

text \<open>A sequence of persist calls, each with its clock text and its result.\<close>

fun persist_all :: "(string \<times> jsrecord) list \<Rightarrow> string \<Rightarrow> fsys \<Rightarrow> exn + fsys" where
  "persist_all [] filename fs = Inr fs"
| "persist_all ((stamp, result) # rest) filename fs =
     (case saveFormattedResultToJson stamp result filename fs of
        Inl e \<Rightarrow> Inl e
      | Inr fs' \<Rightarrow> persist_all rest filename fs')"

section \<open>The polling driver of index.ts\<close>

text \<open>What one cycle meets: the world of its pass and the clock text of its persist call.\<close>

record cycle =
  world :: cp_world
  iso_time :: string

datatype console_line = Shown "(string \<times> jsval) list" | ErrorLine string

text \<open>
  How a run stands after the cycles it was given: still in the loop, left through the
  \<open>catch\<close> of \<open>main\<close>, or waiting for a discovery that never comes back.
\<close>

datatype run_end = Polling | Caught exn | Stalled

record run =
  ended :: run_end
  disk :: fsys
  console :: "console_line list"
  cycles_done :: nat

text \<open>The \<open>while (true)\<close> of \<open>main\<close>, over the cycles the run meets.\<close>

fun poll :: "string \<Rightarrow> cycle list \<Rightarrow> run \<Rightarrow> run" where
  "poll tokenAddress [] r = r"
| "poll tokenAddress (c # cs) r =
     (case getRealtimeSwapPrice (world c) tokenAddress of
        None \<Rightarrow> r\<lparr>ended := Stalled\<rparr>
      | Some (calls, Inl (Error msg)) \<Rightarrow>
          r\<lparr>ended := Caught (Error msg), console := console r @ [ErrorLine msg]\<rparr>
      | Some (calls, Inr result) \<Rightarrow>
          (case saveFormattedResultToJson (iso_time c) result ''latest_price.json'' (disk r) of
             Inl (Error msg) \<Rightarrow>
               r\<lparr>ended := Caught (Error msg),
                 console := console r @ [Shown (printFormattedResult result), ErrorLine msg]\<rparr>
           | Inr fs' \<Rightarrow>
               poll tokenAddress cs
                 (r\<lparr>disk := fs', console := console r @ [Shown (printFormattedResult result)],
                    cycles_done := Suc (cycles_done r)\<rparr>)))"

text \<open>
  \<open>main\<close>: \<open>new PublicKey(tokenInput)\<close> is the parameter \<open>publicKey\<close>, which yields the
  base58 text of the key or throws.
\<close>

definition main :: "(string \<Rightarrow> exn + string) \<Rightarrow> string \<Rightarrow> cycle list \<Rightarrow> fsys \<Rightarrow> run" where
  "main publicKey tokenInput cycles fs =
     (case publicKey tokenInput of
        Inl (Error msg) \<Rightarrow>
          \<lparr>ended = Caught (Error msg), disk = fs, console = [ErrorLine msg], cycles_done = 0\<rparr>
      | Inr tokenAddress \<Rightarrow>
          poll tokenAddress cycles \<lparr>ended = Polling, disk = fs, console = [], cycles_done = 0\<rparr>)"

section \<open>Bin-model tracker: one pass\<close>

definition toUpperCase_chr :: "char \<Rightarrow> char" where
  "toUpperCase_chr c =
     (case map_of (zip ''abcdefghijklmnopqrstuvwxyz'' ''ABCDEFGHIJKLMNOPQRSTUVWXYZ'') c of
        Some u \<Rightarrow> u
      | None \<Rightarrow> c)"

definition toUpperCase :: "string \<Rightarrow> string" where
  "toUpperCase s = map toUpperCase_chr s"

text \<open>\<open>s.split(sep)\<close> for a separator of one character.\<close>

fun split_on :: "char \<Rightarrow> string \<Rightarrow> string list" where
  "split_on sep [] = [[]]"
| "split_on sep (c # cs) =
     (if c = sep then [] # split_on sep cs
      else (case split_on sep cs of
              [] \<Rightarrow> [[c]]
            | part # parts \<Rightarrow> (c # part) # parts))"

definition parseTokenSymbol :: "string \<Rightarrow> string" where
  "parseTokenSymbol poolName =
     (let parts = split_on CHR ''-'' poolName
      in if 2 \<le> length parts
         then (case find (\<lambda>part. toUpperCase part \<noteq> ''SOL'') parts of
                 None \<Rightarrow> ''UNKNOWN''
               | Some part \<Rightarrow> if part = [] then ''UNKNOWN'' else part)
         else ''UNKNOWN'')"

record lb_pair =
  activeId :: "int option"
  binStep :: nat

record swap_quote =
  minOutAmount :: nat
  quote_fee :: nat

text \<open>
  Everything outside the bin-model tracker during one pass. \<open>dlmm_create\<close> stands for
  \<open>DLMM.create(connection, new PublicKey(address))\<close> and yields the pool's \<open>lbPair\<close>;
  \<open>pow_price s b\<close> stands for \<open>new BigNumber(Math.pow(1 + s / 10000, b))\<close>, a computation
  on doubles; \<open>toNumber\<close> converts a BigNumber to a double.
\<close>

record dlmm_world =
  d_parseFloat :: "string \<Rightarrow> jsnum"
  d_response :: "DlmmPoolData list fetched"
  dlmm_create :: "string \<Rightarrow> exn + lb_pair option"
  d_getMint :: "string \<Rightarrow> exn + nat"
  getBinArrayForSwap :: "bool \<Rightarrow> exn + nat list"
  swapQuote :: "nat \<Rightarrow> bool \<Rightarrow> nat \<Rightarrow> nat list \<Rightarrow> exn + swap_quote"
  pow_price :: "nat \<Rightarrow> int \<Rightarrow> bignum"
  toNumber :: "bignum \<Rightarrow> jsnum"

text \<open>
  \<open>new BigNumber(Math.pow(1 + binStep / 10000, activeBinId)).multipliedBy(new
  BigNumber(10).pow(mintX.decimals - mintY.decimals))\<close>.
\<close>

definition priceOfYinX :: "dlmm_world \<Rightarrow> nat \<Rightarrow> int \<Rightarrow> nat \<Rightarrow> nat \<Rightarrow> bignum" where
  "priceOfYinX d step activeBinId decimalsX decimalsY =
     multipliedBy (pow_price d step activeBinId) (pow10 (int decimalsX - int decimalsY))"

text \<open>The inner \<open>try\<close>: the price of the active bin, \<open>None\<close> for \<open>null\<close>.\<close>

definition realTimePrice :: "dlmm_world \<Rightarrow> lb_pair option \<Rightarrow> bool \<Rightarrow> nat \<Rightarrow> nat \<Rightarrow> jsnum option" where
  "realTimePrice d poolState solIsMintX decimalsX decimalsY =
     (case poolState of
        None \<Rightarrow> None
      | Some lb \<Rightarrow>
          (case activeId lb of
             None \<Rightarrow> None
           | Some activeBinId \<Rightarrow>
               (let price = priceOfYinX d (binStep lb) activeBinId decimalsX decimalsY
                in if solIsMintX then Some (toNumber d price)
                   else if \<not> isZero price
                        then Some (toNumber d (dividedBy (Big 1) price))
                        else None)))"

text \<open>\<open>realTimePrice ? parseFloat(realTimePrice.toFixed(6)) : null\<close>.\<close>

definition price_field :: "jsnum option \<Rightarrow> jsval" where
  "price_field p =
     (case p of
        None \<Rightarrow> Null
      | Some x \<Rightarrow> if x = NaN \<or> x = Fin 0 then Null else NumRounded x 6)"

text \<open>The outer \<open>try\<close> of the bin-model \<open>getRealtimeSwapPrice\<close>.\<close>

definition dlmm_quote :: "dlmm_world \<Rightarrow> string \<Rightarrow> DlmmPoolData \<Rightarrow> jsrecord io" where
  "dlmm_quote d tokenAddress pool =
     bindM (perform (DlmmCreate (address pool)) (dlmm_create d (address pool))) (\<lambda>lbPair.
     bindM (both (perform (GetMint (mint_x pool)) (d_getMint d (mint_x pool)))
                 (perform (GetMint (mint_y pool)) (d_getMint d (mint_y pool))))
       (\<lambda>(mintX, mintY).
     let solIsMintX = (trim (toLowerCase (mint_x pool)) = toLowerCase SOL_MINT);
         swapAmount = 1000000000;
         swapYtoX = (if solIsMintX then False else True);
         price = realTimePrice d lbPair solIsMintX mintX mintY
     in
     bindM (perform GetBinArrayForSwap (getBinArrayForSwap d swapYtoX)) (\<lambda>binArrays.
     bindM (perform SwapQuote (swapQuote d swapAmount swapYtoX 1 binArrays)) (\<lambda>q.
     ret [(''Pool address'', Str (address pool)),
          (''Price'', price_field price),
          (''TVL'', Num (d_parseFloat d (or_zero (liquidity pool)))),
          (''Symbol name'', Str (parseTokenSymbol (name pool))),
          (''MintB'', Str tokenAddress)]))))"

definition getRealtimeSwapPrice_dlmm :: "dlmm_world \<Rightarrow> string \<Rightarrow> jsrecord io" where
  "getRealtimeSwapPrice_dlmm d tokenAddress =
     (let pools = fetchSolTokenPools_dlmm (d_parseFloat d) (d_response d) tokenAddress
      in case findHighestLiquidityPool (d_parseFloat d) pools of
           None \<Rightarrow> ret [(''error'', Str ''No DLMM SOL-token pool found.'')]
         | Some pool \<Rightarrow>
             (case dlmm_quote d tokenAddress pool of
                (calls, Inl (Error msg)) \<Rightarrow>
                  (calls, Inr [(''error'', Str (''Swap calculation failed: '' @ msg))])
              | (calls, Inr result) \<Rightarrow> (calls, Inr result)))"

section \<open>Reference notions and sample inputs\<close>

text \<open>
  The selection the specification asks for: index \<open>i\<close> holds a pool whose value is at
  least every other value and strictly above every value before it.
\<close>

definition first_max :: "('a \<Rightarrow> jsnum) \<Rightarrow> 'a list \<Rightarrow> nat \<Rightarrow> bool" where
  "first_max k xs i =
     (i < length xs \<and> (\<forall>j<length xs. jge (k (xs ! i)) (k (xs ! j)))
      \<and> (\<forall>j<i. jgt (k (xs ! i)) (k (xs ! j))))"

text \<open>
  A reading of \<open>parseFloat\<close> for the sample inputs: leading white space, an optional sign,
  digits and an optional fraction; the longest such prefix is the value, and a text with no
  such prefix is NaN. Exponents and the word Infinity are left out, and so is the rounding to
  a double, which the short texts used below do not need.
\<close>

definition parse_unsigned :: "string \<Rightarrow> rat option" where
  "parse_unsigned s =
     (let ip = takeWhile is_digit s;
          r = dropWhile is_digit s;
          fp = (case r of [] \<Rightarrow> [] | c # r' \<Rightarrow> if c = CHR ''.'' then takeWhile is_digit r' else [])
      in if ip = [] \<and> fp = [] then None
         else Some (of_nat (digits_val ip) + of_nat (digits_val fp) / 10 ^ length fp))"

definition parseFloat_plain :: "string \<Rightarrow> jsnum" where
  "parseFloat_plain s =
     (case dropWhile is_ws s of
        [] \<Rightarrow> NaN
      | c # r \<Rightarrow>
          if c = CHR ''-'' then (case parse_unsigned r of None \<Rightarrow> NaN | Some v \<Rightarrow> Fin (- v))
          else if c = CHR ''+'' then (case parse_unsigned r of None \<Rightarrow> NaN | Some v \<Rightarrow> Fin v)
          else (case parse_unsigned (c # r) of None \<Rightarrow> NaN | Some v \<Rightarrow> Fin v))"

text \<open>Sample pool records: the fields the trackers read, the others left empty.\<close>

definition cp_pool :: "string \<Rightarrow> string \<Rightarrow> string \<Rightarrow> string \<Rightarrow> PoolData" where
  "cp_pool addr a b t =
     \<lparr>pool_address = addr, token_a_mint = a, token_b_mint = b, token_a_amount = ''0'',
      token_b_amount = ''0'', tvl = t, fee_bps = Fin 25, token_a_symbol = None,
      token_b_symbol = None, pool_price = None\<rparr>"

definition bin_pool :: "string \<Rightarrow> string \<Rightarrow> string \<Rightarrow> jsnum \<Rightarrow> jsnum \<Rightarrow> string \<Rightarrow> DlmmPoolData" where
  "bin_pool addr x y rx ry liq =
     \<lparr>address = addr, name = ''SOL-TKN'', mint_x = x, mint_y = y, reserve_x_amount = rx,
      reserve_y_amount = ry, bin_step = Fin 10, liquidity = liq, current_price = Fin 1,
      mint_x_symbol = None, mint_y_symbol = None\<rparr>"

definition TOKEN_T :: string where
  "TOKEN_T = ''TokenT1111111111111111111111111111111111111''"

definition TOKEN_U :: string where
  "TOKEN_U = ''TokenU1111111111111111111111111111111111111''"

text \<open>A pool record with the native mint on one of its two sides.\<close>

definition native :: "PoolData \<Rightarrow> bool" where
  "native p = (token_a_mint p = SOL_MINT \<or> token_b_mint p = SOL_MINT)"

text \<open>
  A sample world of the constant-product tracker: the index answers the side-A query with
  the given pools, the chain knows the native mint (9 decimals) and the token (6 decimals),
  and the SDK quotes 2.5 tokens with a raw fee of 3000000.
\<close>

definition sample_world :: "PoolData list \<Rightarrow> (exn + pool_state) \<Rightarrow> cp_world" where
  "sample_world pools state =
     \<lparr>parseFloat = parseFloat_plain,
      pool_index = (\<lambda>field token offset.
         if field = ''token_a_mint'' \<and> offset = 0 then FetchOk pools else FetchOk []),
      fetchPoolState = (\<lambda>addr. state),
      getMint = (\<lambda>addr. if addr = SOL_MINT then Inr 9
                         else if addr = TOKEN_T then Inr 6
                         else Inl (Error ''mint not found'')),
      getEpochInfo = Inr 700,
      getSlot = Inr 300000000,
      getQuote = (\<lambda>p. Inr \<lparr>swapOutAmount = 2500000, totalFee = 3000000\<rparr>),
      getPriceFromSqrtPrice = (\<lambda>sqrtPrice decimalsA decimalsB. Big 4),
      date_now = 1700000000000\<rparr>"

text \<open>
  A sample world of the bin-model tracker around a given response of the index. Its pools
  stand at the active bin 0, where \<open>Math.pow\<close> yields exactly 1 whatever the step.
\<close>

definition sample_dlmm_world :: "DlmmPoolData list fetched \<Rightarrow> dlmm_world" where
  "sample_dlmm_world response =
     \<lparr>d_parseFloat = parseFloat_plain,
      d_response = response,
      dlmm_create = (\<lambda>addr. Inr (Some \<lparr>activeId = Some 0, binStep = 10\<rparr>)),
      d_getMint = (\<lambda>addr. if addr = SOL_MINT then Inr 9 else Inr 6),
      getBinArrayForSwap = (\<lambda>swapYtoX. Inr []),
      swapQuote = (\<lambda>amount swapYtoX allowedSlippage binArrays.
         Inr \<lparr>minOutAmount = 2500000, quote_fee = 3000000\<rparr>),
      pow_price = (\<lambda>s b. Big 1),
      toNumber = (\<lambda>x. case x of Big r \<Rightarrow> Fin r | BigInf neg \<Rightarrow> (if neg then NegInf else PosInf)
                       | BigNaN \<Rightarrow> NaN)\<rparr>"

text \<open>A disk whose paths are all readable and writable and hold the given state.\<close>

definition sample_disk :: "file_state \<Rightarrow> fsys" where
  "sample_disk f =
     \<lparr>files = (\<lambda>filename. f), readable = (\<lambda>filename. True), writable = (\<lambda>filename. True)\<rparr>"

text \<open>A disk whose paths are all write-only and hold the given state.\<close>

definition write_only_disk :: "file_state \<Rightarrow> fsys" where
  "write_only_disk f =
     \<lparr>files = (\<lambda>filename. f), readable = (\<lambda>filename. False), writable = (\<lambda>filename. True)\<rparr>"

text \<open>A key constructor that accepts the sample token and rejects every other text.\<close>

definition sample_publicKey :: "string \<Rightarrow> exn + string" where
  "sample_publicKey s = (if s = TOKEN_T then Inr TOKEN_T else Inl (Error ''Invalid public key input''))"

section \<open>Order of numbers\<close>

lemma jge_refl: "a \<noteq> NaN \<Longrightarrow> jge a a"
  by (cases a) (simp_all add: jge_def)

lemma jge_trans: "jge a b \<Longrightarrow> jge b c \<Longrightarrow> jge a c"
  by (cases a; cases b; cases c) (simp_all add: jge_def)

lemma jgt_jge_trans: "jgt a b \<Longrightarrow> jge b c \<Longrightarrow> jgt a c"
  by (cases a; cases b; cases c) (simp_all add: jge_def)

lemma jgt_imp_jge: "jgt a b \<Longrightarrow> jge a b"
  by (cases a; cases b) (simp_all add: jge_def)

lemma first_max_single: "k x \<noteq> NaN \<Longrightarrow> first_max k [x] 0"
  by (simp add: first_max_def jge_refl)

lemma first_max_snoc_keep:
  assumes "first_max k xs i" and "jge (k (xs ! i)) (k x)"
  shows "first_max k (xs @ [x]) i"
  using assms by (auto simp: first_max_def nth_append less_Suc_eq)

lemma first_max_snoc_new:
  assumes "first_max k xs i" and "jgt (k x) (k (xs ! i))"
  shows "first_max k (xs @ [x]) (length xs)"
  unfolding first_max_def
proof (intro conjI allI impI)
  show "length xs < length (xs @ [x])" by simp
next
  fix j assume "j < length (xs @ [x])"
  then consider "j < length xs" | "j = length xs" by fastforce
  then show "jge (k ((xs @ [x]) ! length xs)) (k ((xs @ [x]) ! j))"
  proof cases
    case 1
    with assms have "jge (k (xs ! i)) (k (xs ! j))" by (simp add: first_max_def)
    with assms(2) have "jgt (k x) (k (xs ! j))" by (rule jgt_jge_trans)
    with 1 show ?thesis by (simp add: nth_append jgt_imp_jge)
  next
    case 2
    from assms(2) have "k x \<noteq> NaN" by (cases "k x") simp_all
    with 2 show ?thesis by (simp add: jge_refl)
  qed
next
  fix j assume j: "j < length xs"
  with assms have "jge (k (xs ! i)) (k (xs ! j))" by (simp add: first_max_def)
  with assms(2) have "jgt (k x) (k (xs ! j))" by (rule jgt_jge_trans)
  with j show "jgt (k ((xs @ [x]) ! length xs)) (k ((xs @ [x]) ! j))" by (simp add: nth_append)
qed

lemma reduce_first_max:
  assumes "\<forall>x\<in>set (p # ps). k x \<noteq> NaN"
  shows "\<exists>i. first_max k (p # ps) i
            \<and> foldl (\<lambda>m c. if jgt (k c) (k m) then c else m) p ps = (p # ps) ! i"
  using assms
proof (induction ps rule: rev_induct)
  case Nil
  then show ?case using first_max_single [of k p] by auto
next
  case (snoc x ps)
  then obtain i where i: "first_max k (p # ps) i"
    and r: "foldl (\<lambda>m c. if jgt (k c) (k m) then c else m) p ps = (p # ps) ! i" by auto
  from i have il: "i < length (p # ps)" by (simp add: first_max_def)
  have "(p # ps) ! i \<in> set (p # ps)" using il by (rule nth_mem)
  then have nn: "k x \<noteq> NaN" "k ((p # ps) ! i) \<noteq> NaN"
    using snoc.prems by auto
  show ?case
  proof (cases "jgt (k x) (k ((p # ps) ! i))")
    case True
    from first_max_snoc_new [OF i True]
    have "first_max k (p # ps @ [x]) (length (p # ps))" by simp
    moreover have "foldl (\<lambda>m c. if jgt (k c) (k m) then c else m) p (ps @ [x]) = (p # ps @ [x]) ! length (p # ps)"
      using True r by (simp add: nth_append)
    ultimately show ?thesis by blast
  next
    case False
    with nn have "jge (k ((p # ps) ! i)) (k x)" by (simp add: jge_def)
    from first_max_snoc_keep [OF i this] have "first_max k (p # ps @ [x]) i" by simp
    moreover have "foldl (\<lambda>m c. if jgt (k c) (k m) then c else m) p (ps @ [x]) = (p # ps @ [x]) ! i"
      using False r il by (simp add: nth_append del: nth_Cons_Suc) (metis append_Cons nth_append length_Cons)
    ultimately show ?thesis by blast
  qed
qed

lemma insert_by_hd:
  "hd (insert_by c x ys) = (if ys = [] \<or> c x (hd ys) \<le> 0 then x else hd ys)"
  by (cases ys) simp_all

lemma insert_by_not_Nil: "insert_by c x ys \<noteq> []"
  by (cases ys) simp_all

lemma js_sort_Cons: "js_sort c (x # xs) = insert_by c x (js_sort c xs)"
  by (simp add: js_sort_def)

lemma js_sort_Nil_iff: "js_sort c xs = [] \<longleftrightarrow> xs = []"
  by (cases xs) (simp_all add: js_sort_def insert_by_not_Nil)

lemma first_max_Cons_new:
  assumes "first_max k xs i" and "jge (k x) (k (xs ! i))"
  shows "first_max k (x # xs) 0"
  unfolding first_max_def
proof (intro conjI allI impI)
  fix j assume "j < length (x # xs)"
  show "jge (k ((x # xs) ! 0)) (k ((x # xs) ! j))"
  proof (cases j)
    case 0
    from assms(2) have "k x \<noteq> NaN" by (simp add: jge_def)
    with 0 show ?thesis by (simp add: jge_refl)
  next
    case (Suc j')
    with \<open>j < length (x # xs)\<close> assms(1) have "jge (k (xs ! i)) (k (xs ! j'))"
      by (simp add: first_max_def)
    with assms(2) have "jge (k x) (k (xs ! j'))" by (rule jge_trans)
    with Suc show ?thesis by simp
  qed
qed simp_all

lemma first_max_Cons_keep:
  assumes "first_max k xs i" and "jgt (k (xs ! i)) (k x)"
  shows "first_max k (x # xs) (Suc i)"
  unfolding first_max_def
proof (intro conjI allI impI)
  show "Suc i < length (x # xs)" using assms(1) by (simp add: first_max_def)
next
  fix j assume "j < length (x # xs)"
  then show "jge (k ((x # xs) ! Suc i)) (k ((x # xs) ! j))"
    using assms by (cases j) (simp_all add: first_max_def jgt_imp_jge)
next
  fix j assume "j < Suc i"
  then show "jgt (k ((x # xs) ! Suc i)) (k ((x # xs) ! j))"
    using assms by (cases j) (simp_all add: first_max_def)
qed

lemma sort_first_max:
  assumes "\<forall>x\<in>set xs. k x \<noteq> NaN" and "xs \<noteq> []"
  shows "\<exists>i. first_max k xs i \<and> hd (js_sort (\<lambda>a b. jsub_sign (k b) (k a)) xs) = xs ! i"
  using assms
proof (induction xs)
  case Nil
  then show ?case by simp
next
  case (Cons x xs)
  let ?c = "\<lambda>a b. jsub_sign (k b) (k a)"
  show ?case
  proof (cases "xs = []")
    case True
    with Cons.prems show ?thesis
      using first_max_single [of k x] by (auto simp: js_sort_def)
  next
    case False
    with Cons obtain i where i: "first_max k xs i" and h: "hd (js_sort ?c xs) = xs ! i" by auto
    from i have il: "i < length xs" by (simp add: first_max_def)
    have nn: "k x \<noteq> NaN" "k (xs ! i) \<noteq> NaN" using Cons.prems il by simp_all
    have ne: "js_sort ?c xs \<noteq> []" using False by (simp add: js_sort_Nil_iff)
    show ?thesis
    proof (cases "jgt (k (xs ! i)) (k x)")
      case True
      then have "\<not> jsub_sign (k (xs ! i)) (k x) \<le> 0" by (simp add: jsub_sign_def)
      then have "hd (js_sort ?c (x # xs)) = (x # xs) ! Suc i"
        using ne h by (simp add: js_sort_Cons insert_by_hd)
      with first_max_Cons_keep [OF i True] show ?thesis by blast
    next
      case False
      then have "jsub_sign (k (xs ! i)) (k x) \<le> 0" by (simp add: jsub_sign_def)
      then have "hd (js_sort ?c (x # xs)) = (x # xs) ! 0"
        using ne h by (simp add: js_sort_Cons insert_by_hd)
      moreover from False nn have "jge (k x) (k (xs ! i))" by (simp add: jge_def)
      from first_max_Cons_new [OF i this] have "first_max k (x # xs) 0" .
      ultimately show ?thesis by blast
    qed
  qed
qed

section \<open>Pool selection\<close>

text \<open>
  C2 (as the code has it): when every liquidity text parses to a number (not NaN), both
  selectors return, for a non-empty list, the pool of maximal parsed liquidity, the earliest
  one among equals; for the empty list they return none.
\<close>

theorem select_first_max_of_numbers:
  assumes "\<forall>p\<in>set pools. pf (or_zero (tvl p)) \<noteq> NaN"
    and "\<forall>p\<in>set dpools. pf (or_zero (liquidity p)) \<noteq> NaN"
  shows "findHighestTvlPool pf [] = None \<and> findHighestLiquidityPool pf [] = None
    \<and> (pools \<noteq> [] \<longrightarrow>
         (\<exists>i. first_max (\<lambda>p. pf (or_zero (tvl p))) pools i
              \<and> findHighestTvlPool pf pools = Some (pools ! i)))
    \<and> (dpools \<noteq> [] \<longrightarrow>
         (\<exists>i. first_max (\<lambda>p. pf (or_zero (liquidity p))) dpools i
              \<and> findHighestLiquidityPool pf dpools = Some (dpools ! i)))"
proof (intro conjI impI)
  show "findHighestTvlPool pf [] = None" by (simp add: findHighestTvlPool_def)
  show "findHighestLiquidityPool pf [] = None" by (simp add: findHighestLiquidityPool_def)
next
  assume "pools \<noteq> []"
  then obtain p ps where ps: "pools = p # ps" by (cases pools) auto
  with assms(1) have "\<forall>x\<in>set (p # ps). pf (or_zero (tvl x)) \<noteq> NaN" by simp
  from reduce_first_max [of p ps "\<lambda>p. pf (or_zero (tvl p))", OF this]
  show "\<exists>i. first_max (\<lambda>p. pf (or_zero (tvl p))) pools i
            \<and> findHighestTvlPool pf pools = Some (pools ! i)"
    by (simp add: findHighestTvlPool_def ps)
next
  assume ne: "dpools \<noteq> []"
  let ?k = "\<lambda>p. pf (or_zero (liquidity p))"
  have c: "by_liquidity_desc pf = (\<lambda>a b. jsub_sign (?k b) (?k a))"
    by (intro ext) (simp add: by_liquidity_desc_def)
  from sort_first_max [of dpools ?k, OF assms(2) ne]
  obtain i where i: "first_max ?k dpools i"
    and h: "hd (js_sort (by_liquidity_desc pf) dpools) = dpools ! i" by (auto simp: c)
  have "js_sort (by_liquidity_desc pf) dpools \<noteq> []" using ne by (simp add: js_sort_Nil_iff)
  then have "findHighestLiquidityPool pf dpools = Some (hd (js_sort (by_liquidity_desc pf) dpools))"
    using ne by (cases "js_sort (by_liquidity_desc pf) dpools") (simp_all add: findHighestLiquidityPool_def)
  with i h show "\<exists>i. first_max ?k dpools i \<and> findHighestLiquidityPool pf dpools = Some (dpools ! i)"
    by auto
qed

theorem select_first_max_of_numbers_witness:
  "findHighestTvlPool parseFloat_plain
     [cp_pool ''A'' SOL_MINT TOKEN_T ''100'', cp_pool ''B'' SOL_MINT TOKEN_T ''500'',
      cp_pool ''C'' TOKEN_T SOL_MINT ''500'']
     = Some (cp_pool ''B'' SOL_MINT TOKEN_T ''500'')
   \<and> (\<exists>i. first_max (\<lambda>p. parseFloat_plain (or_zero (liquidity p)))
            [bin_pool ''A'' SOL_MINT TOKEN_T (Fin 1) (Fin 1) ''100'',
             bin_pool ''B'' SOL_MINT TOKEN_T (Fin 1) (Fin 1) ''500'',
             bin_pool ''C'' TOKEN_T SOL_MINT (Fin 1) (Fin 1) ''500''] i
          \<and> findHighestLiquidityPool parseFloat_plain
            [bin_pool ''A'' SOL_MINT TOKEN_T (Fin 1) (Fin 1) ''100'',
             bin_pool ''B'' SOL_MINT TOKEN_T (Fin 1) (Fin 1) ''500'',
             bin_pool ''C'' TOKEN_T SOL_MINT (Fin 1) (Fin 1) ''500'']
            = Some ([bin_pool ''A'' SOL_MINT TOKEN_T (Fin 1) (Fin 1) ''100'',
             bin_pool ''B'' SOL_MINT TOKEN_T (Fin 1) (Fin 1) ''500'',
             bin_pool ''C'' TOKEN_T SOL_MINT (Fin 1) (Fin 1) ''500''] ! i))"
proof -
  let ?ps = "[cp_pool ''A'' SOL_MINT TOKEN_T ''100'', cp_pool ''B'' SOL_MINT TOKEN_T ''500'',
      cp_pool ''C'' TOKEN_T SOL_MINT ''500'']"
  let ?ds = "[bin_pool ''A'' SOL_MINT TOKEN_T (Fin 1) (Fin 1) ''100'',
             bin_pool ''B'' SOL_MINT TOKEN_T (Fin 1) (Fin 1) ''500'',
             bin_pool ''C'' TOKEN_T SOL_MINT (Fin 1) (Fin 1) ''500'']"
  have v: "parseFloat_plain ''100'' = Fin 100" "parseFloat_plain ''500'' = Fin 500"
    by code_simp+
  have h1: "\<forall>p\<in>set ?ps. parseFloat_plain (or_zero (tvl p)) \<noteq> NaN"
    by (simp add: cp_pool_def or_zero_def v)
  have h2: "\<forall>p\<in>set ?ds. parseFloat_plain (or_zero (liquidity p)) \<noteq> NaN"
    by (simp add: bin_pool_def or_zero_def v)
  have r: "findHighestTvlPool parseFloat_plain ?ps = Some (cp_pool ''B'' SOL_MINT TOKEN_T ''500'')"
    by (simp add: findHighestTvlPool_def cp_pool_def or_zero_def v)
  from select_first_max_of_numbers [OF h1 h2] r show ?thesis by simp
qed

theorem select_nan_counterexample:
  "findHighestTvlPool parseFloat_plain
     [cp_pool ''A'' SOL_MINT TOKEN_T ''abc'', cp_pool ''B'' SOL_MINT TOKEN_T ''7'']
     = Some (cp_pool ''A'' SOL_MINT TOKEN_T ''abc'')
   \<and> parseFloat_plain (or_zero (tvl (cp_pool ''A'' SOL_MINT TOKEN_T ''abc''))) = NaN
   \<and> parseFloat_plain (or_zero (tvl (cp_pool ''B'' SOL_MINT TOKEN_T ''7''))) = Fin 7
   \<and> \<not> jge (parseFloat_plain (or_zero (tvl (cp_pool ''A'' SOL_MINT TOKEN_T ''abc''))))
           (parseFloat_plain (or_zero (tvl (cp_pool ''B'' SOL_MINT TOKEN_T ''7''))))"
proof -
  have v: "parseFloat_plain ''abc'' = NaN" "parseFloat_plain ''7'' = Fin 7"
    by code_simp+
  show ?thesis
    by (simp add: findHighestTvlPool_def cp_pool_def or_zero_def v jge_def)
qed

section \<open>Discovery\<close>

lemma native_iff: "SOL_MINT \<in> set [token_a_mint pool, token_b_mint pool] \<longleftrightarrow> native pool"
  by (auto simp: native_def)

lemma scan_step:
  "scan_page (pool # rest) (m, s) =
     (if pool_address pool \<notin> s \<and> native pool
      then scan_page rest (m @ [pool], insert (pool_address pool) s)
      else scan_page rest (m, s))"
  unfolding native_iff [symmetric] by (rule scan_page.simps)

lemma scan_page_native:
  "\<forall>p\<in>set (fst st). native p \<Longrightarrow> \<forall>p\<in>set (fst (scan_page pools st)). native p"
proof (induction pools arbitrary: st)
  case Nil
  then show ?case by simp
next
  case (Cons pool rest)
  obtain m s where st: "st = (m, s)" by (cases st)
  show ?case
  proof (cases "pool_address pool \<notin> s \<and> native pool")
    case True
    have a: "\<forall>p\<in>set (fst (m @ [pool], insert (pool_address pool) s)). native p"
      using True Cons.prems st by auto
    have e: "scan_page (pool # rest) (m, s)
               = scan_page rest (m @ [pool], insert (pool_address pool) s)"
      unfolding scan_step using True by (rule if_P)
    from Cons.IH [OF a] show ?thesis unfolding st e .
  next
    case False
    have e: "scan_page (pool # rest) (m, s) = scan_page rest (m, s)"
      unfolding scan_step using False by (rule if_not_P)
    from Cons.prems have "\<forall>p\<in>set (fst (m, s)). native p" unfolding st .
    from Cons.IH [OF this] show ?thesis unfolding st e .
  qed
qed

lemma fetch_pages_native:
  assumes r: "fetch_pages api field token offset st = Some st'"
  shows "(\<forall>p\<in>set (fst st). native p) \<longrightarrow> (\<forall>p\<in>set (fst st'). native p)"
proof (rule fetch_pages.raw_induct [OF _ r,
        where P = "\<lambda>_ _ _ _ st st'. (\<forall>p\<in>set (fst st). native p) \<longrightarrow> (\<forall>p\<in>set (fst st'). native p)"])
  fix fp :: "(string \<Rightarrow> string \<Rightarrow> nat \<Rightarrow> PoolData list fetched) \<Rightarrow> string \<Rightarrow> string \<Rightarrow> nat
               \<Rightarrow> PoolData list \<times> string set \<Rightarrow> (PoolData list \<times> string set) option"
    and api :: "string \<Rightarrow> string \<Rightarrow> nat \<Rightarrow> PoolData list fetched"
    and field token :: string and offset :: nat
    and st st' :: "PoolData list \<times> string set"
  assume IH: "\<And>api field token offset st y. fp api field token offset st = Some y \<Longrightarrow>
                (\<forall>p\<in>set (fst st). native p) \<longrightarrow> (\<forall>p\<in>set (fst y). native p)"
    and body: "(case api field token offset of
                  FetchFailed \<Rightarrow> Some st
                | FetchOk pools \<Rightarrow>
                    if pools = [] then Some st
                    else fp api field token (offset + 50) (scan_page pools st)) = Some st'"
  show "(\<forall>p\<in>set (fst st). native p) \<longrightarrow> (\<forall>p\<in>set (fst st'). native p)"
  proof (cases "api field token offset")
    case FetchFailed
    with body show ?thesis by simp
  next
    case (FetchOk pools)
    show ?thesis
    proof (cases "pools = []")
      case True
      with FetchOk body show ?thesis by simp
    next
      case False
      with FetchOk body
      have "fp api field token (offset + 50) (scan_page pools st) = Some st'" by simp
      then have "(\<forall>p\<in>set (fst (scan_page pools st)). native p) \<longrightarrow> (\<forall>p\<in>set (fst st'). native p)"
        by (rule IH)
      with scan_page_native [of st pools] show ?thesis by blast
    qed
  qed
qed

text \<open>
  C10: every pool that the bin-model discovery returns has a parsed liquidity above zero and
  both reserves above zero; a pool of the response that lacks one of the three is not in
  the result.
\<close>

theorem dlmm_discovery_has_liquidity_and_reserves:
  "(\<forall>p\<in>set (fetchSolTokenPools_dlmm pf response tokenAddress).
       jgt (pf (or_zero (liquidity p))) (Fin 0)
       \<and> jgt (reserve_x_amount p) (Fin 0) \<and> jgt (reserve_y_amount p) (Fin 0))
   \<and> (\<forall>p. \<not> (jgt (pf (or_zero (liquidity p))) (Fin 0)
              \<and> jgt (reserve_x_amount p) (Fin 0) \<and> jgt (reserve_y_amount p) (Fin 0))
         \<longrightarrow> p \<notin> set (fetchSolTokenPools_dlmm pf response tokenAddress))"
  by (cases response) (auto simp: fetchSolTokenPools_dlmm_def usable_pool_def Let_def)

theorem dlmm_discovery_has_liquidity_and_reserves_witness:
  "fetchSolTokenPools_dlmm parseFloat_plain
     (FetchOk [bin_pool ''A'' SOL_MINT TOKEN_T (Fin 5) (Fin 0) ''100'',
               bin_pool ''B'' TOKEN_T SOL_MINT (Fin 5) (Fin 9) ''0'',
               bin_pool ''C'' TOKEN_T SOL_MINT (Fin 5) (Fin 9) ''250'']) TOKEN_T
     = [bin_pool ''C'' TOKEN_T SOL_MINT (Fin 5) (Fin 9) ''250'']
   \<and> jgt (parseFloat_plain (or_zero (liquidity (bin_pool ''C'' TOKEN_T SOL_MINT (Fin 5) (Fin 9) ''250'')))) (Fin 0)
   \<and> bin_pool ''A'' SOL_MINT TOKEN_T (Fin 5) (Fin 0) ''100''
       \<notin> set (fetchSolTokenPools_dlmm parseFloat_plain
     (FetchOk [bin_pool ''A'' SOL_MINT TOKEN_T (Fin 5) (Fin 0) ''100'',
               bin_pool ''B'' TOKEN_T SOL_MINT (Fin 5) (Fin 9) ''0'',
               bin_pool ''C'' TOKEN_T SOL_MINT (Fin 5) (Fin 9) ''250'']) TOKEN_T)"
proof -
  let ?r = "FetchOk [bin_pool ''A'' SOL_MINT TOKEN_T (Fin 5) (Fin 0) ''100'',
               bin_pool ''B'' TOKEN_T SOL_MINT (Fin 5) (Fin 9) ''0'',
               bin_pool ''C'' TOKEN_T SOL_MINT (Fin 5) (Fin 9) ''250'']"
  have e: "fetchSolTokenPools_dlmm parseFloat_plain ?r TOKEN_T
             = [bin_pool ''C'' TOKEN_T SOL_MINT (Fin 5) (Fin 9) ''250'']"
    by code_simp
  have z: "\<not> jgt (reserve_y_amount (bin_pool ''A'' SOL_MINT TOKEN_T (Fin 5) (Fin 0) ''100'')) (Fin 0)"
    by (simp add: bin_pool_def)
  from dlmm_discovery_has_liquidity_and_reserves [of parseFloat_plain ?r TOKEN_T] e z
  show ?thesis by auto
qed

text \<open>
  C3 (as the code has it): every pool in a constant-product discovery result has the native
  mint on one of its two sides; its other side is whatever the index returned for the token
  query and is not compared with the token. Every pool in a bin-model discovery result has,
  after lower-casing and trimming, the native mint on one side and the token on the other.
\<close>

theorem discovery_keeps_native_pairs:
  "(\<forall>pools. fetchSolTokenPools api token = Some pools \<longrightarrow>
       (\<forall>p\<in>set pools. native p))
   \<and> (\<forall>p\<in>set (fetchSolTokenPools_dlmm pf response tokenAddress).
        (trim (toLowerCase (mint_x p)) = toLowerCase SOL_MINT
           \<and> trim (toLowerCase (mint_y p)) = trim (toLowerCase tokenAddress))
        \<or> (trim (toLowerCase (mint_y p)) = toLowerCase SOL_MINT
           \<and> trim (toLowerCase (mint_x p)) = trim (toLowerCase tokenAddress)))"
proof (intro conjI allI impI)
  fix pools assume r: "fetchSolTokenPools api token = Some pools"
  then obtain st st' where a: "fetch_pages api ''token_a_mint'' token 0 ([], {}) = Some st"
    and b: "fetch_pages api ''token_b_mint'' token 0 st = Some st'" and p: "pools = fst st'"
    by (auto simp: fetchSolTokenPools_def split: option.splits)
  have "\<forall>p\<in>set (fst (([], {}) :: PoolData list \<times> string set)). native p" by simp
  with fetch_pages_native [OF a] fetch_pages_native [OF b] p
  show "\<forall>p\<in>set pools. native p" by simp
next
  show "\<forall>p\<in>set (fetchSolTokenPools_dlmm pf response tokenAddress).
        (trim (toLowerCase (mint_x p)) = toLowerCase SOL_MINT
           \<and> trim (toLowerCase (mint_y p)) = trim (toLowerCase tokenAddress))
        \<or> (trim (toLowerCase (mint_y p)) = toLowerCase SOL_MINT
           \<and> trim (toLowerCase (mint_x p)) = trim (toLowerCase tokenAddress))"
    by (cases response) (auto simp: fetchSolTokenPools_dlmm_def usable_pool_def Let_def)
qed

theorem discovery_keeps_native_pairs_witness:
  "fetchSolTokenPools
     (\<lambda>field token offset.
        if field = ''token_b_mint'' \<and> offset = 0
        then FetchOk [cp_pool ''P1'' SOL_MINT TOKEN_T ''10'', cp_pool ''P2'' TOKEN_U TOKEN_T ''90'']
        else FetchOk []) TOKEN_T
     = Some [cp_pool ''P1'' SOL_MINT TOKEN_T ''10'']
   \<and> native (cp_pool ''P1'' SOL_MINT TOKEN_T ''10'')"
proof -
  let ?api = "\<lambda>field token offset.
        if field = ''token_b_mint'' \<and> offset = (0::nat)
        then FetchOk [cp_pool ''P1'' SOL_MINT TOKEN_T ''10'', cp_pool ''P2'' TOKEN_U TOKEN_T ''90'']
        else FetchOk []"
  have e: "fetchSolTokenPools ?api TOKEN_T = Some [cp_pool ''P1'' SOL_MINT TOKEN_T ''10'']"
    by (simp add: fetchSolTokenPools_def fetch_pages.simps cp_pool_def SOL_MINT_def TOKEN_U_def
          TOKEN_T_def)
  from discovery_keeps_native_pairs [of ?api TOKEN_T parseFloat_plain FetchFailed TOKEN_T] e
  show ?thesis by simp
qed

theorem discovery_other_mint_counterexample:
  "fetchSolTokenPools
     (\<lambda>field token offset.
        if field = ''token_a_mint'' \<and> offset = 0
        then FetchOk [cp_pool ''P1'' SOL_MINT TOKEN_U ''10'']
        else FetchOk []) TOKEN_T
     = Some [cp_pool ''P1'' SOL_MINT TOKEN_U ''10'']
   \<and> token_a_mint (cp_pool ''P1'' SOL_MINT TOKEN_U ''10'') \<noteq> TOKEN_T
   \<and> token_b_mint (cp_pool ''P1'' SOL_MINT TOKEN_U ''10'') \<noteq> TOKEN_T"
  by (simp add: fetchSolTokenPools_def fetch_pages.simps cp_pool_def SOL_MINT_def TOKEN_U_def
        TOKEN_T_def)

section \<open>Calls and their results\<close>

lemma bindM_Inr_iff:
  "bindM m f = (cs, Inr y) \<longleftrightarrow>
     (\<exists>cs1 x cs2. m = (cs1, Inr x) \<and> f x = (cs2, Inr y) \<and> cs = cs1 @ cs2)"
  by (cases m) (auto simp: bindM_def split: sum.splits prod.splits)

lemma perform_Inr_iff: "perform c r = (cs, Inr x) \<longleftrightarrow> cs = [c] \<and> r = Inr x"
  by (auto simp: perform_def)

lemma both_Inr_iff:
  "both (perform c r) (perform c' r') = (cs, Inr p) \<longleftrightarrow>
     cs = [c, c'] \<and> r = Inr (fst p) \<and> r' = Inr (snd p)"
  by (cases p) (auto simp: both_def perform_def split: sum.splits)

lemma ret_Inr_iff: "ret x = (cs, Inr y) \<longleftrightarrow> cs = [] \<and> x = y"
  by (auto simp: ret_def)

lemma bindM_perform_Inr:
  "bindM (perform c (Inr x)) f = (case f x of (cs, r) \<Rightarrow> (c # cs, r))"
  by (simp add: bindM_def perform_def)

lemma bindM_perform_Inl: "bindM (perform c (Inl e)) f = ([c], Inl e)"
  by (simp add: bindM_def perform_def)

lemma bindM_both_Inr:
  "bindM (both (perform c (Inr x)) (perform c' (Inr y))) f
     = (case f (x, y) of (cs, r) \<Rightarrow> (c # c' # cs, r))"
  by (simp add: bindM_def both_def perform_def)

lemma bindM_both_Inl:
  "bindM (both (perform c (Inl e)) (perform c' r)) f = ([c, c'], Inl e)"
  by (simp add: bindM_def both_def perform_def)

lemma bindM_ret: "bindM (ret x) f = f x"
  by (simp add: bindM_def ret_def split: prod.splits)

lemma bindM_pair_Inr: "bindM (cs, Inr x) f = (case f x of (cs', r) \<Rightarrow> (cs @ cs', r))"
  by (simp add: bindM_def)

lemma bindM_pair_Inl: "bindM (cs, Inl e) f = (cs, Inl e)"
  by (simp add: bindM_def)

lemmas run_simps =
  bindM_both_Inr bindM_both_Inl bindM_perform_Inr bindM_perform_Inl bindM_ret
  bindM_pair_Inr bindM_pair_Inl Let_def

lemmas sample_simps =
  sample_world_def cp_pool_def TOKEN_T_def TOKEN_U_def SOL_MINT_def pow10_def
  DECIMAL_PLACES_def

section \<open>The locals of a constant-product pass\<close>

lemma quote_locals_Inr:
  assumes "quote_locals w tokenAddress pool sqrtPrice = (calls, Inr l)"
  shows "\<exists>q. getMint w SOL_MINT = Inr (inputMint l)
     \<and> getMint w (if token_a_mint pool \<noteq> SOL_MINT then token_a_mint pool else token_b_mint pool)
         = Inr (outputMint l)
     \<and> getMint w (token_a_mint pool) = Inr (tokenAMint l)
     \<and> getMint w (token_b_mint pool) = Inr (tokenBMint l)
     \<and> getQuote w q = Inr (quote l)
     \<and> isSolOutput l = (token_a_mint pool \<noteq> SOL_MINT)
     \<and> feeMint l = (if isSolOutput l then inputMint l else outputMint l)
     \<and> amountOut l = dividedBy (Big (of_nat (swapOutAmount (quote l)))) (pow10 (int (outputMint l)))
     \<and> fee l = dividedBy (Big (of_nat (totalFee (quote l)))) (pow10 (int (feeMint l)))
     \<and> rawPrice l = getPriceFromSqrtPrice w sqrtPrice (tokenAMint l) (tokenBMint l)
     \<and> finalPrice l = (if tokenAddress = token_a_mint pool
                        then dividedBy (Big 1) (rawPrice l) else rawPrice l)"
  using assms
  unfolding quote_locals_def Let_def bindM_Inr_iff perform_Inr_iff both_Inr_iff ret_Inr_iff
    split_beta
  by (elim exE conjE) auto

lemma round_half_up_exact:
  assumes "x * 10 ^ dp \<in> \<int>"
  shows "round_half_up dp x = x"
proof -
  from assms obtain k :: int where k: "x * 10 ^ dp = of_int k" by (auto elim: Ints_cases)
  have p: "(10::rat) ^ dp \<noteq> 0" by simp
  have f: "\<lfloor>(of_int j :: rat) + 1 / 2\<rfloor> = j" for j :: int
    by (simp add: floor_unique)
  have x: "x = of_int k / 10 ^ dp" using k p by (simp add: field_simps)
  show ?thesis
  proof (cases "0 \<le> x")
    case True
    then show ?thesis using x by (simp add: round_half_up_def k f)
  next
    case False
    have "- x * 10 ^ dp = of_int (- k)" using k by simp
    then have "\<lfloor>- x * 10 ^ dp + 1 / 2\<rfloor> = - k" using f [of "- k"] by simp
    then show ?thesis using False x by (simp add: round_half_up_def)
  qed
qed

lemma dividedBy_exact:
  "y \<noteq> 0 \<Longrightarrow> x / y * 10 ^ DECIMAL_PLACES \<in> \<int> \<Longrightarrow> dividedBy (Big x) (Big y) = Big (x / y)"
  by (simp add: round_half_up_exact)

lemma round_half_up_error: "\<bar>round_half_up dp x - x\<bar> \<le> 1 / (2 * 10 ^ dp)"
proof -
  have fl: "\<bar>of_int \<lfloor>y + 1 / 2\<rfloor> - y\<bar> \<le> 1 / 2" for y :: rat
  proof -
    have "of_int \<lfloor>y + 1 / 2\<rfloor> \<le> y + 1 / 2" by (rule of_int_floor_le)
    moreover have "y + 1 / 2 < of_int \<lfloor>y + 1 / 2\<rfloor> + 1"
      using floor_correct [of "y + 1 / 2"] by simp
    ultimately show ?thesis by linarith
  qed
  have p: "(0::rat) < 10 ^ dp" by simp
  have sc: "\<bar>of_int \<lfloor>y * 10 ^ dp + 1 / 2\<rfloor> / 10 ^ dp - y\<bar> \<le> 1 / (2 * 10 ^ dp)" for y :: rat
  proof -
    have "of_int \<lfloor>y * 10 ^ dp + 1 / 2\<rfloor> / 10 ^ dp - y
            = (of_int \<lfloor>y * 10 ^ dp + 1 / 2\<rfloor> - y * 10 ^ dp) / 10 ^ dp"
      using p by (simp add: field_simps)
    then have "\<bar>of_int \<lfloor>y * 10 ^ dp + 1 / 2\<rfloor> / 10 ^ dp - y\<bar>
            = \<bar>of_int \<lfloor>y * 10 ^ dp + 1 / 2\<rfloor> - y * 10 ^ dp\<bar> / 10 ^ dp"
      using p by simp
    also have "\<dots> \<le> (1 / 2) / 10 ^ dp"
    proof (rule divide_right_mono)
      show "\<bar>of_int \<lfloor>y * 10 ^ dp + 1 / 2\<rfloor> - y * 10 ^ dp\<bar> \<le> 1 / 2" by (rule fl)
      show "(0::rat) \<le> 10 ^ dp" by simp
    qed
    finally show ?thesis by simp
  qed
  show ?thesis
  proof (cases "0 \<le> x")
    case True
    with sc [of x] show ?thesis by (simp add: round_half_up_def)
  next
    case False
    have "\<bar>- (of_int \<lfloor>- x * 10 ^ dp + 1 / 2\<rfloor> / 10 ^ dp) - x\<bar>
            = \<bar>of_int \<lfloor>(- x) * 10 ^ dp + 1 / 2\<rfloor> / 10 ^ dp - (- x)\<bar>"
      by (simp add: abs_minus_commute)
    with sc [of "- x"] False show ?thesis by (simp add: round_half_up_def)
  qed
qed

text \<open>
  C4 (as the code has it): in a pass that reaches its quote, for a pool that holds the native
  mint, the normalized fee is the raw total fee divided by ten to the decimals of the pool's
  side-B mint: the native asset's decimals when the native asset is side B, the token's
  decimals when the native asset is side A.
\<close>

theorem fee_normalized_by_side_b_decimals:
  assumes "quote_locals w tokenAddress pool sqrtPrice = (calls, Inr l)"
    and "native pool"
  shows "getMint w (token_b_mint pool) = Inr (feeMint l)
     \<and> fee l = dividedBy (Big (of_nat (totalFee (quote l)))) (pow10 (int (feeMint l)))
     \<and> (token_a_mint pool \<noteq> SOL_MINT \<longrightarrow> getMint w SOL_MINT = Inr (feeMint l))"
proof -
  from quote_locals_Inr [OF assms(1)] obtain q :: quote_params where
    i: "getMint w SOL_MINT = Inr (inputMint l)"
    and out: "getMint w (if token_a_mint pool \<noteq> SOL_MINT then token_a_mint pool
                         else token_b_mint pool) = Inr (outputMint l)"
    and b: "getMint w (token_b_mint pool) = Inr (tokenBMint l)"
    and s: "isSolOutput l = (token_a_mint pool \<noteq> SOL_MINT)"
    and fm: "feeMint l = (if isSolOutput l then inputMint l else outputMint l)"
    and f: "fee l = dividedBy (Big (of_nat (totalFee (quote l)))) (pow10 (int (feeMint l)))"
    by blast
  show ?thesis
  proof (cases "token_a_mint pool = SOL_MINT")
    case True
    with out s fm f show ?thesis by simp
  next
    case False
    with assms(2) have "token_b_mint pool = SOL_MINT" by (simp add: native_def)
    with False i s fm f show ?thesis by simp
  qed
qed

theorem fee_normalized_by_side_b_decimals_witness:
  "native (cp_pool ''P1'' SOL_MINT TOKEN_T ''10'')
   \<and> (\<exists>calls l. quote_locals (sample_world [] (Inr (State 5))) TOKEN_T
                     (cp_pool ''P1'' SOL_MINT TOKEN_T ''10'') 5 = (calls, Inr l)
          \<and> getMint (sample_world [] (Inr (State 5)))
                (token_b_mint (cp_pool ''P1'' SOL_MINT TOKEN_T ''10'')) = Inr (feeMint l)
          \<and> feeMint l = 6 \<and> totalFee (quote l) = 3000000 \<and> fee l = Big 3)"
proof -
  let ?w = "sample_world [] (Inr (State 5))"
  let ?pool = "cp_pool ''P1'' SOL_MINT TOKEN_T ''10''"
  let ?l = "\<lparr>isSolOutput = False, inputMint = 9, outputMint = 6,
             quote = \<lparr>swapOutAmount = 2500000, totalFee = 3000000\<rparr>,
             amountOut = Big (5 / 2), feeMint = 6, fee = Big 3,
             tokenAMint = 9, tokenBMint = 6, rawPrice = Big 4, finalPrice = Big 4\<rparr>"
  let ?calls = "[GetMint SOL_MINT, GetMint TOKEN_T, GetEpochInfo, GetEpochInfo, GetSlot,
                 GetQuote, GetMint SOL_MINT, GetMint TOKEN_T]"
  have e: "quote_locals ?w TOKEN_T ?pool 5 = (?calls, Inr ?l)"
    by (simp add: quote_locals_def run_simps sample_simps ret_def dividedBy_exact
          del: dividedBy.simps)
  have n: "native ?pool" by (simp add: native_def cp_pool_def)
  from fee_normalized_by_side_b_decimals [OF e n] e n show ?thesis by simp
qed

theorem fee_on_native_side_a_counterexample:
  "token_a_mint (cp_pool ''P1'' SOL_MINT TOKEN_T ''10'') = SOL_MINT
   \<and> getMint (sample_world [] (Inr (State 5))) SOL_MINT = Inr 9
   \<and> map_sum id (\<lambda>l. totalFee (quote l))
        (snd (quote_locals (sample_world [] (Inr (State 5))) TOKEN_T
                (cp_pool ''P1'' SOL_MINT TOKEN_T ''10'') 5)) = Inr 3000000
   \<and> map_sum id fee
        (snd (quote_locals (sample_world [] (Inr (State 5))) TOKEN_T
                (cp_pool ''P1'' SOL_MINT TOKEN_T ''10'') 5)) = Inr (Big 3)
   \<and> dividedBy (Big 3000000) (pow10 9) = Big (3 / 1000)"
  by (simp add: quote_locals_def run_simps sample_simps ret_def dividedBy_exact
        del: dividedBy.simps)

lemma pass_ignores_raw_price:
  "getRealtimeSwapPrice (w\<lparr>getPriceFromSqrtPrice := g\<rparr>) tokenAddress
     = getRealtimeSwapPrice w tokenAddress"
proof -
  have "bindM (quote_locals (w\<lparr>getPriceFromSqrtPrice := g\<rparr>) tokenAddress pool sqrtPrice)
          (\<lambda>l. ret (observation (w\<lparr>getPriceFromSqrtPrice := g\<rparr>) tokenAddress pool l))
        = bindM (quote_locals w tokenAddress pool sqrtPrice)
            (\<lambda>l. ret (observation w tokenAddress pool l))" for pool sqrtPrice
    by (simp add: quote_locals_def observation_def bindM_def both_def perform_def ret_def
          Let_def split: sum.splits prod.splits)
  then show ?thesis
    by (simp add: getRealtimeSwapPrice_def cong: option.case_cong pool_state.case_cong)
qed

text \<open>
  C5 (as the code has it): in a pass that reaches its quote, the price derived from the
  square-root price is computed and not reported. The local \<open>finalPrice\<close> is one divided
  by the raw price in the decimal arithmetic, within half a unit of the twentieth decimal of
  the exact reciprocal, when the tracked token is side A, and the raw price unchanged
  otherwise. The returned record holds the pool address, the amount out for one unit of the
  native asset, the liquidity, the token symbol and the token address, and it is the same
  whatever the SDK's price function yields.
\<close>

theorem final_price_computed_and_not_reported:
  assumes "fetchSolTokenPools (pool_index w) tokenAddress = Some pools"
    and "findHighestTvlPool (parseFloat w) pools = Some pool"
    and "fetchPoolState w (pool_address pool) = Inr (State sqrtPrice)"
    and "quote_locals w tokenAddress pool sqrtPrice = (calls, Inr l)"
  shows "getMint w (token_a_mint pool) = Inr (tokenAMint l)
     \<and> getMint w (token_b_mint pool) = Inr (tokenBMint l)
     \<and> rawPrice l = getPriceFromSqrtPrice w sqrtPrice (tokenAMint l) (tokenBMint l)
     \<and> (tokenAddress = token_a_mint pool \<longrightarrow>
           finalPrice l = dividedBy (Big 1) (rawPrice l)
           \<and> (\<forall>r. rawPrice l = Big r \<and> r \<noteq> 0 \<longrightarrow>
                 (\<exists>q. finalPrice l = Big q \<and> \<bar>q - 1 / r\<bar> \<le> 1 / (2 * 10 ^ 20))))
     \<and> (tokenAddress \<noteq> token_a_mint pool \<longrightarrow> finalPrice l = rawPrice l)
     \<and> getRealtimeSwapPrice w tokenAddress
           = Some (FetchPoolState (pool_address pool) # calls,
                   Inr [(''pool_address'', Str (pool_address pool)),
                        (''amount_out_for_1_SOL'',
                           BigFixed (dividedBy (Big (of_nat (swapOutAmount (quote l))))
                                       (pow10 (int (outputMint l)))) 6),
                        (''total_tvl'', NumFixed (parseFloat w (or_zero (tvl pool))) 2),
                        (''token_symbol'',
                           (case (if tokenAddress = token_a_mint pool then token_a_symbol pool
                                  else token_b_symbol pool) of
                              None \<Rightarrow> Undefined
                            | Some s \<Rightarrow> Str s)),
                        (''token_address'', Str tokenAddress)])
     \<and> (\<forall>g. getRealtimeSwapPrice (w\<lparr>getPriceFromSqrtPrice := g\<rparr>) tokenAddress
              = getRealtimeSwapPrice w tokenAddress)"
proof -
  from quote_locals_Inr [OF assms(4)] obtain q :: quote_params where
    a: "getMint w (token_a_mint pool) = Inr (tokenAMint l)"
    and b: "getMint w (token_b_mint pool) = Inr (tokenBMint l)"
    and r: "rawPrice l = getPriceFromSqrtPrice w sqrtPrice (tokenAMint l) (tokenBMint l)"
    and out: "amountOut l = dividedBy (Big (of_nat (swapOutAmount (quote l))))
                              (pow10 (int (outputMint l)))"
    and f: "finalPrice l = (if tokenAddress = token_a_mint pool
                            then dividedBy (Big 1) (rawPrice l) else rawPrice l)"
    by blast
  have bound: "\<exists>q. dividedBy (Big 1) (Big r) = Big q \<and> \<bar>q - 1 / r\<bar> \<le> 1 / (2 * 10 ^ 20)"
    if "r \<noteq> 0" for r
    using that round_half_up_error [of 20 "1 / r"] by (simp add: DECIMAL_PLACES_def)
  have local: "(tokenAddress = token_a_mint pool \<longrightarrow>
           finalPrice l = dividedBy (Big 1) (rawPrice l)
           \<and> (\<forall>r. rawPrice l = Big r \<and> r \<noteq> 0 \<longrightarrow>
                 (\<exists>q. finalPrice l = Big q \<and> \<bar>q - 1 / r\<bar> \<le> 1 / (2 * 10 ^ 20))))
     \<and> (tokenAddress \<noteq> token_a_mint pool \<longrightarrow> finalPrice l = rawPrice l)"
    using f bound by auto
  have rec: "getRealtimeSwapPrice w tokenAddress
           = Some (FetchPoolState (pool_address pool) # calls,
                   Inr (observation w tokenAddress pool l))"
    using assms by (simp add: getRealtimeSwapPrice_def bindM_perform_Inr bindM_pair_Inr ret_def)
  from local have l1: "tokenAddress = token_a_mint pool \<longrightarrow>
           finalPrice l = dividedBy (Big 1) (rawPrice l)
           \<and> (\<forall>r. rawPrice l = Big r \<and> r \<noteq> 0 \<longrightarrow>
                 (\<exists>q. finalPrice l = Big q \<and> \<bar>q - 1 / r\<bar> \<le> 1 / (2 * 10 ^ 20)))"
    and l2: "tokenAddress \<noteq> token_a_mint pool \<longrightarrow> finalPrice l = rawPrice l"
    by blast+
  have rec': "getRealtimeSwapPrice w tokenAddress
           = Some (FetchPoolState (pool_address pool) # calls,
                   Inr [(''pool_address'', Str (pool_address pool)),
                        (''amount_out_for_1_SOL'',
                           BigFixed (dividedBy (Big (of_nat (swapOutAmount (quote l))))
                                       (pow10 (int (outputMint l)))) 6),
                        (''total_tvl'', NumFixed (parseFloat w (or_zero (tvl pool))) 2),
                        (''token_symbol'',
                           (case (if tokenAddress = token_a_mint pool then token_a_symbol pool
                                  else token_b_symbol pool) of
                              None \<Rightarrow> Undefined
                            | Some s \<Rightarrow> Str s)),
                        (''token_address'', Str tokenAddress)])"
    unfolding rec observation_def out ..
  show ?thesis
    by (intro conjI allI) (rule a b r l1 l2 rec' pass_ignores_raw_price)+
qed

theorem final_price_computed_and_not_reported_witness:
  "\<exists>calls l. quote_locals (sample_world [cp_pool ''P2'' TOKEN_T SOL_MINT ''10''] (Inr (State 5)))
                 TOKEN_T (cp_pool ''P2'' TOKEN_T SOL_MINT ''10'') 5 = (calls, Inr l)
      \<and> rawPrice l = Big 4 \<and> finalPrice l = Big (1 / 4)
      \<and> finalPrice l = dividedBy (Big 1) (rawPrice l)
      \<and> getRealtimeSwapPrice (sample_world [cp_pool ''P2'' TOKEN_T SOL_MINT ''10''] (Inr (State 5)))
            TOKEN_T
          = Some (FetchPoolState ''P2'' # calls,
                  Inr [(''pool_address'', Str ''P2''),
                       (''amount_out_for_1_SOL'', BigFixed (Big (5 / 2)) 6),
                       (''total_tvl'', NumFixed (Fin 10) 2),
                       (''token_symbol'', Undefined),
                       (''token_address'', Str TOKEN_T)])"
proof -
  let ?pool = "cp_pool ''P2'' TOKEN_T SOL_MINT ''10''"
  let ?w = "sample_world [?pool] (Inr (State 5))"
  let ?l = "\<lparr>isSolOutput = True, inputMint = 9, outputMint = 6,
             quote = \<lparr>swapOutAmount = 2500000, totalFee = 3000000\<rparr>,
             amountOut = Big (5 / 2), feeMint = 9, fee = Big (3 / 1000),
             tokenAMint = 6, tokenBMint = 9, rawPrice = Big 4, finalPrice = Big (1 / 4)\<rparr>"
  let ?calls = "[GetMint SOL_MINT, GetMint TOKEN_T, GetEpochInfo, GetEpochInfo, GetSlot,
                 GetQuote, GetMint TOKEN_T, GetMint SOL_MINT]"
  have a: "fetchSolTokenPools (pool_index ?w) TOKEN_T = Some [?pool]"
    by (simp add: fetchSolTokenPools_def fetch_pages.simps sample_simps)
  have b: "findHighestTvlPool (parseFloat ?w) [?pool] = Some ?pool"
    by (simp add: findHighestTvlPool_def)
  have c: "fetchPoolState ?w (pool_address ?pool) = Inr (State 5)"
    by (simp add: sample_world_def)
  have e: "quote_locals ?w TOKEN_T ?pool 5 = (?calls, Inr ?l)"
    by (simp add: quote_locals_def run_simps sample_simps ret_def dividedBy_exact
          del: dividedBy.simps)
  have t: "TOKEN_T = token_a_mint ?pool" by (simp add: cp_pool_def)
  have v: "parseFloat ?w (or_zero (tvl ?pool)) = Fin 10"
  proof -
    have "parseFloat_plain ''10'' = Fin 10" by code_simp
    then show ?thesis by (simp add: sample_world_def cp_pool_def or_zero_def)
  qed
  have o: "dividedBy (Big (of_nat (swapOutAmount (quote ?l)))) (pow10 (int (outputMint ?l)))
             = Big (5 / 2)"
    by (simp add: pow10_def dividedBy_exact DECIMAL_PLACES_def del: dividedBy.simps)
  note th = final_price_computed_and_not_reported [OF a b c e]
  from th t have f: "finalPrice ?l = dividedBy (Big 1) (rawPrice ?l)" by blast
  from th have "getRealtimeSwapPrice ?w TOKEN_T
      = Some (FetchPoolState (pool_address ?pool) # ?calls,
              Inr [(''pool_address'', Str (pool_address ?pool)),
                   (''amount_out_for_1_SOL'',
                      BigFixed (dividedBy (Big (of_nat (swapOutAmount (quote ?l))))
                                  (pow10 (int (outputMint ?l)))) 6),
                   (''total_tvl'', NumFixed (parseFloat ?w (or_zero (tvl ?pool))) 2),
                   (''token_symbol'',
                      (case (if TOKEN_T = token_a_mint ?pool then token_a_symbol ?pool
                             else token_b_symbol ?pool) of
                         None \<Rightarrow> Undefined
                       | Some s \<Rightarrow> Str s)),
                   (''token_address'', Str TOKEN_T)])"
    by blast
  then have g: "getRealtimeSwapPrice ?w TOKEN_T
      = Some (FetchPoolState ''P2'' # ?calls,
                  Inr [(''pool_address'', Str ''P2''),
                       (''amount_out_for_1_SOL'', BigFixed (Big (5 / 2)) 6),
                       (''total_tvl'', NumFixed (Fin 10) 2),
                       (''token_symbol'', Undefined),
                       (''token_address'', Str TOKEN_T)])"
    unfolding o v by (simp add: cp_pool_def)
  show ?thesis by (intro exI conjI) (rule e, simp, simp, rule f, rule g)
qed

theorem reported_price_is_amount_out_counterexample:
  "token_a_mint (cp_pool ''P2'' TOKEN_T SOL_MINT ''10'') = TOKEN_T
   \<and> getPriceFromSqrtPrice (sample_world [cp_pool ''P2'' TOKEN_T SOL_MINT ''10''] (Inr (State 5)))
        5 6 9 = Big 4
   \<and> dividedBy (Big 1) (Big 4) = Big (1 / 4)
   \<and> map_option snd
        (getRealtimeSwapPrice (sample_world [cp_pool ''P2'' TOKEN_T SOL_MINT ''10''] (Inr (State 5)))
           TOKEN_T)
       = Some (Inr [(''pool_address'', Str ''P2''),
                    (''amount_out_for_1_SOL'', BigFixed (Big (5 / 2)) 6),
                    (''total_tvl'', NumFixed (Fin 10) 2),
                    (''token_symbol'', Undefined),
                    (''token_address'', Str TOKEN_T)])
   \<and> display_key ''amount_out_for_1_SOL'' = ''Price''
   \<and> Big (5 / 2) \<noteq> Big (1 / 4)"
proof -
  have v: "parseFloat_plain ''10'' = Fin 10" by code_simp
  have d: "dividedBy (Big 1) (Big 4) = Big (1 / 4)"
    by (simp add: dividedBy_exact DECIMAL_PLACES_def del: dividedBy.simps)
  have r: "map_option snd
        (getRealtimeSwapPrice (sample_world [cp_pool ''P2'' TOKEN_T SOL_MINT ''10''] (Inr (State 5)))
           TOKEN_T)
       = Some (Inr [(''pool_address'', Str ''P2''),
                    (''amount_out_for_1_SOL'', BigFixed (Big (5 / 2)) 6),
                    (''total_tvl'', NumFixed (Fin 10) 2),
                    (''token_symbol'', Undefined),
                    (''token_address'', Str TOKEN_T)])"
    by (simp add: getRealtimeSwapPrice_def fetchSolTokenPools_def fetch_pages.simps
          findHighestTvlPool_def quote_locals_def observation_def run_simps sample_simps
          ret_def or_zero_def v dividedBy_exact del: dividedBy.simps)
  show ?thesis
    using d r by (simp add: cp_pool_def sample_world_def display_key_def displayNames_def
                   del: dividedBy.simps)
qed

section \<open>Error records of a pass\<close>

text \<open>
  C8: when the discovery comes back with no pool, each tracker's
  \<open>getRealtimeSwapPrice\<close> returns, without an exception and without a call to the chain,
  the record whose \<open>error\<close> field says that no pool was found.
\<close>

theorem no_pool_gives_error_record:
  "(fetchSolTokenPools (pool_index w) tokenAddress = Some [] \<longrightarrow>
      getRealtimeSwapPrice w tokenAddress
        = Some ([], Inr [(''error'', Str ''No SOL-token pool found.'')]))
   \<and> (fetchSolTokenPools_dlmm (d_parseFloat d) (d_response d) tokenAddress' = [] \<longrightarrow>
      getRealtimeSwapPrice_dlmm d tokenAddress'
        = ([], Inr [(''error'', Str ''No DLMM SOL-token pool found.'')]))"
  by (simp add: getRealtimeSwapPrice_def getRealtimeSwapPrice_dlmm_def findHighestTvlPool_def
        findHighestLiquidityPool_def ret_def)

theorem no_pool_gives_error_record_witness:
  "fetchSolTokenPools (pool_index (sample_world [] (Inr (State 5)))) TOKEN_T = Some []
   \<and> getRealtimeSwapPrice (sample_world [] (Inr (State 5))) TOKEN_T
        = Some ([], Inr [(''error'', Str ''No SOL-token pool found.'')])
   \<and> fetchSolTokenPools_dlmm (d_parseFloat (sample_dlmm_world FetchFailed))
        (d_response (sample_dlmm_world FetchFailed)) TOKEN_T = []
   \<and> getRealtimeSwapPrice_dlmm (sample_dlmm_world FetchFailed) TOKEN_T
        = ([], Inr [(''error'', Str ''No DLMM SOL-token pool found.'')])"
proof -
  have a: "fetchSolTokenPools (pool_index (sample_world [] (Inr (State 5)))) TOKEN_T = Some []"
    by (simp add: fetchSolTokenPools_def fetch_pages.simps sample_world_def)
  have b: "fetchSolTokenPools_dlmm (d_parseFloat (sample_dlmm_world FetchFailed))
             (d_response (sample_dlmm_world FetchFailed)) TOKEN_T = []"
    by (simp add: fetchSolTokenPools_dlmm_def sample_dlmm_world_def)
  from no_pool_gives_error_record [of "sample_world [] (Inr (State 5))" TOKEN_T
      "sample_dlmm_world FetchFailed" TOKEN_T] a b
  show ?thesis by simp
qed

text \<open>
  C9: when the selected pool's state comes back missing or as an object without keys, the
  constant-product pass returns the record whose \<open>error\<close> field says that the pool state
  could not be fetched or parsed, and the only call it has made is the fetch of the state:
  no quote is requested.
\<close>

theorem empty_pool_state_stops_before_quote:
  assumes "fetchSolTokenPools (pool_index w) tokenAddress = Some pools"
    and "findHighestTvlPool (parseFloat w) pools = Some pool"
    and "fetchPoolState w (pool_address pool) = Inr st"
    and "st = StateMissing \<or> st = StateEmpty"
  shows "getRealtimeSwapPrice w tokenAddress
           = Some ([FetchPoolState (pool_address pool)],
                   Inr [(''error'', Str ''Failed to fetch or parse valid pool state.'')])
         \<and> GetQuote \<notin> set [FetchPoolState (pool_address pool)]"
  using assms by (auto simp: getRealtimeSwapPrice_def bindM_perform_Inr ret_def)

theorem empty_pool_state_stops_before_quote_witness:
  "getRealtimeSwapPrice
     (sample_world [cp_pool ''P1'' SOL_MINT TOKEN_T ''10''] (Inr StateEmpty)) TOKEN_T
     = Some ([FetchPoolState ''P1''],
             Inr [(''error'', Str ''Failed to fetch or parse valid pool state.'')])"
proof -
  let ?pool = "cp_pool ''P1'' SOL_MINT TOKEN_T ''10''"
  let ?w = "sample_world [?pool] (Inr StateEmpty)"
  have a: "fetchSolTokenPools (pool_index ?w) TOKEN_T = Some [?pool]"
    by (simp add: fetchSolTokenPools_def fetch_pages.simps sample_simps)
  have b: "findHighestTvlPool (parseFloat ?w) [?pool] = Some ?pool"
    by (simp add: findHighestTvlPool_def)
  have c: "fetchPoolState ?w (pool_address ?pool) = Inr StateEmpty"
    by (simp add: sample_world_def)
  have d: "StateEmpty = StateMissing \<or> StateEmpty = StateEmpty" by simp
  from empty_pool_state_stops_before_quote [OF a b c d] show ?thesis
    by (simp add: cp_pool_def)
qed

section \<open>The price of the active bin\<close>



lemma coprime_401_400: "coprime (401::int) 400" using coprime_add_one_left [of "400::int"] by simp

lemma coprime_401_10: "coprime (401::int) 10"
proof -
  have "coprime (401::int) (40 * 10)" using coprime_401_400 by simp
  then show ?thesis by (simp only: coprime_mult_right_iff)
qed

lemma no_decimal_is_400_over_401:
  assumes "v * 10 ^ k \<in> \<int>"
  shows "v \<noteq> (400 / 401 :: rat)"
proof
  assume v: "v = 400 / 401"
  from assms obtain m :: int where m: "v * 10 ^ k = of_int m" by (auto elim: Ints_cases)
  from m have "(400 / 401 :: rat) * 10 ^ k = of_int m" unfolding v .
  then have "(400 :: rat) * 10 ^ k = 401 * of_int m" by (simp add: field_simps)
  then have "(of_int (400 * 10 ^ k) :: rat) = of_int (401 * m)" by simp
  then have eq: "400 * 10 ^ k = 401 * m" by (simp only: of_int_eq_iff)
  have "coprime (401::int) (10 ^ k)" using coprime_401_10 by simp
  with coprime_401_400 have "coprime (401::int) (400 * 10 ^ k)" by simp
  moreover have "(401::int) dvd 400 * 10 ^ k" using eq by simp
  ultimately have "is_unit (401::int)" by (meson coprime_common_divisor dvd_refl)
  then show False by simp
qed




text \<open>
  At a negative bin the double power cannot be the exact power: every double is a finite
  decimal, and \<open>(1 + 25/10000)^(-1) = 400/401\<close> is none. So whatever finite decimal
  \<open>Math.pow\<close> yields there, the price differs from the formula.
\<close>

theorem bin_price_inexact_at_negative_bin:
  assumes "pow_price d 25 (- 1) = Big v" and "v * 10 ^ k \<in> \<int>"
  shows "priceOfYinX d 25 (- 1) dx dx \<noteq> Big ((1 + of_nat 25 / 10000) powi (- 1) * 10 powi (int dx - int dx))"
proof -
  have f: "(1 + of_nat 25 / 10000 :: rat) powi (- 1) = 400 / 401"
    by (simp add: power_int_minus field_simps)
  have "priceOfYinX d 25 (- 1) dx dx = Big v" using assms(1) by (simp add: priceOfYinX_def pow10_def)
  with no_decimal_is_400_over_401 [OF assms(2)] f show ?thesis by simp
qed

section \<open>Persistence\<close>

lemma save_writable:
  assumes "writable fs filename"
  shows "\<exists>fs'. saveFormattedResultToJson stamp result filename fs = Inr fs'
           \<and> writable fs' filename
           \<and> readable fs' filename = readable fs filename
           \<and> files fs' filename
               = Parsed (JArr (read_array fs filename
                               @ [entry_json (new_entry stamp (format_result result))]))"
  using assms by (simp add: saveFormattedResultToJson_def Let_def)

lemma read_array_written:
  "files fs filename = Parsed (JArr items) \<Longrightarrow>
     read_array fs filename = (if readable fs filename then items else [])"
  by (simp add: read_array_def)

lemma read_array_unreadable: "\<not> readable fs filename \<Longrightarrow> read_array fs filename = []"
  by (simp add: read_array_def split: file_state.splits)

lemma persist_all_readable:
  assumes "writable fs filename" and "readable fs filename"
  shows "\<exists>fs'. persist_all calls filename fs = Inr fs'
           \<and> writable fs' filename \<and> readable fs' filename
           \<and> (calls \<noteq> [] \<longrightarrow>
                files fs' filename
                  = Parsed (JArr (read_array fs filename
                      @ map (\<lambda>(stamp, result). entry_json (new_entry stamp (format_result result)))
                          calls)))"
  using assms
proof (induction calls arbitrary: fs)
  case Nil
  then show ?case by simp
next
  case (Cons c calls)
  obtain stamp result where c: "c = (stamp, result)" by (cases c)
  from save_writable [OF Cons.prems(1), of stamp result] Cons.prems(2) obtain fs1 where
    s: "saveFormattedResultToJson stamp result filename fs = Inr fs1"
    and w: "writable fs1 filename"
    and rd: "readable fs1 filename"
    and f: "files fs1 filename
              = Parsed (JArr (read_array fs filename
                              @ [entry_json (new_entry stamp (format_result result))]))"
    by auto
  from Cons.IH [OF w rd] obtain fs' where
    p: "persist_all calls filename fs1 = Inr fs'"
    and w': "writable fs' filename"
    and rd': "readable fs' filename"
    and f': "calls \<noteq> [] \<longrightarrow>
               files fs' filename
                 = Parsed (JArr (read_array fs1 filename
                     @ map (\<lambda>(stamp, result). entry_json (new_entry stamp (format_result result)))
                         calls))"
    by blast
  have r: "persist_all (c # calls) filename fs = Inr fs'" using s p c by simp
  show ?case
  proof (cases "calls = []")
    case True
    with p have "fs' = fs1" by simp
    with r w rd f True c show ?thesis by simp
  next
    case False
    with f' f rd have "files fs' filename
        = Parsed (JArr (read_array fs filename
            @ map (\<lambda>(stamp, result). entry_json (new_entry stamp (format_result result)))
                (c # calls)))"
      by (simp add: read_array_written c)
    with r w' rd' show ?thesis by blast
  qed
qed

lemma persist_all_unreadable:
  assumes "writable fs filename" and "\<not> readable fs filename" and "calls \<noteq> []"
  shows "\<exists>fs'. persist_all calls filename fs = Inr fs'
           \<and> files fs' filename
               = Parsed (JArr [entry_json (new_entry (fst (last calls))
                                             (format_result (snd (last calls))))])"
  using assms
proof (induction calls arbitrary: fs)
  case Nil
  then show ?case by simp
next
  case (Cons c calls)
  obtain stamp result where c: "c = (stamp, result)" by (cases c)
  from save_writable [OF Cons.prems(1), of stamp result] Cons.prems(2) obtain fs1 where
    s: "saveFormattedResultToJson stamp result filename fs = Inr fs1"
    and w: "writable fs1 filename"
    and rd: "\<not> readable fs1 filename"
    and f: "files fs1 filename
              = Parsed (JArr [entry_json (new_entry stamp (format_result result))])"
    by (auto simp: read_array_unreadable)
  show ?case
  proof (cases "calls = []")
    case True
    with s f c show ?thesis by simp
  next
    case False
    from Cons.IH [OF w rd False] obtain fs' where
      "persist_all calls filename fs1 = Inr fs'"
      "files fs' filename
         = Parsed (JArr [entry_json (new_entry (fst (last calls))
                                       (format_result (snd (last calls))))])"
      by blast
    with s c False show ?thesis by simp
  qed
qed

text \<open>
  C7 (as the code has it): on a path that the process may write and read, a non-empty
  sequence of persist calls that starts from a file which is absent, unparseable or not a
  JSON array ends with a file that holds the array of exactly one entry per call, in call
  order; and a call that starts from a file holding a JSON array leaves that array with the
  new entry appended after the entries that were there. On a path that the process may write
  and not read, every call starts from the empty array, and after a non-empty sequence of
  calls the file holds the entry of the last call alone.
\<close>

theorem persist_appends_and_heals_where_readable:
  assumes "writable fs filename"
  shows "(readable fs filename \<and> calls \<noteq> []
            \<and> (\<forall>items. files fs filename \<noteq> Parsed (JArr items)) \<longrightarrow>
           (\<exists>fs' entries. persist_all calls filename fs = Inr fs'
               \<and> files fs' filename = Parsed (JArr entries)
               \<and> length entries = length calls
               \<and> entries = map (\<lambda>(stamp, result).
                                  entry_json (new_entry stamp (format_result result))) calls))
     \<and> (\<forall>items. readable fs filename \<and> files fs filename = Parsed (JArr items) \<longrightarrow>
           (\<exists>fs'. saveFormattedResultToJson stamp result filename fs = Inr fs'
               \<and> files fs' filename
                   = Parsed (JArr (items
                       @ [entry_json (new_entry stamp (format_result result))]))))
     \<and> (\<not> readable fs filename \<and> calls \<noteq> [] \<longrightarrow>
           (\<exists>fs'. persist_all calls filename fs = Inr fs'
               \<and> files fs' filename
                   = Parsed (JArr [entry_json (new_entry (fst (last calls))
                                                 (format_result (snd (last calls))))])))"
proof (intro conjI impI allI)
  assume a: "readable fs filename \<and> calls \<noteq> []
               \<and> (\<forall>items. files fs filename \<noteq> Parsed (JArr items))"
  have e: "read_array fs filename = []"
  proof (cases "files fs filename")
    case (Parsed j)
    with a show ?thesis by (cases j) (simp_all add: read_array_def)
  qed (simp_all add: read_array_def)
  from a have rd: "readable fs filename" by simp
  from persist_all_readable [OF assms rd, of calls] a e
  show "\<exists>fs' entries. persist_all calls filename fs = Inr fs'
          \<and> files fs' filename = Parsed (JArr entries)
          \<and> length entries = length calls
          \<and> entries = map (\<lambda>(stamp, result).
                             entry_json (new_entry stamp (format_result result))) calls"
    by auto
next
  fix items assume "readable fs filename \<and> files fs filename = Parsed (JArr items)"
  with save_writable [OF assms, of stamp result]
  show "\<exists>fs'. saveFormattedResultToJson stamp result filename fs = Inr fs'
          \<and> files fs' filename
              = Parsed (JArr (items @ [entry_json (new_entry stamp (format_result result))]))"
    by (auto simp: read_array_written)
next
  assume "\<not> readable fs filename \<and> calls \<noteq> []"
  with persist_all_unreadable [OF assms, of calls]
  show "\<exists>fs'. persist_all calls filename fs = Inr fs'
          \<and> files fs' filename
              = Parsed (JArr [entry_json (new_entry (fst (last calls))
                                            (format_result (snd (last calls))))])"
    by simp
qed

lemmas entry_simps =
  entry_json_def new_entry_def format_result_def display_key_def displayNames_def
  js_assign_def is_index_key_def is_digit_def digit_of_def

theorem persist_appends_and_heals_where_readable_witness:
  "writable (sample_disk Unparseable) ''latest_price.json''
   \<and> readable (sample_disk Unparseable) ''latest_price.json''
   \<and> (\<exists>fs'. persist_all
               [(''2026-01-01T00:00:00.000Z'', [(''error'', Str ''No SOL-token pool found.'')]),
                (''2026-01-01T00:00:01.000Z'', [(''pool_address'', Str ''P1'')])]
               ''latest_price.json'' (sample_disk Unparseable) = Inr fs'
         \<and> files fs' ''latest_price.json''
             = Parsed (JArr
                 [JObj [(''timestamp'', JLeaf (Str ''2026-01-01T00:00:00.000Z'')),
                        (''error'', JLeaf (Str ''No SOL-token pool found.''))],
                  JObj [(''timestamp'', JLeaf (Str ''2026-01-01T00:00:01.000Z'')),
                        (''Pool address'', JLeaf (Str ''P1''))]]))"
proof -
  let ?calls = "[(''2026-01-01T00:00:00.000Z'', [(''error'', Str ''No SOL-token pool found.'')]),
                (''2026-01-01T00:00:01.000Z'', [(''pool_address'', Str ''P1'')])]"
  have w: "writable (sample_disk Unparseable) ''latest_price.json''"
    by (simp add: sample_disk_def)
  have n: "readable (sample_disk Unparseable) ''latest_price.json'' \<and> ?calls \<noteq> []
             \<and> (\<forall>items. files (sample_disk Unparseable) ''latest_price.json''
                           \<noteq> Parsed (JArr items))"
    by (simp add: sample_disk_def)
  have m: "map (\<lambda>(stamp, result). entry_json (new_entry stamp (format_result result))) ?calls
             = [JObj [(''timestamp'', JLeaf (Str ''2026-01-01T00:00:00.000Z'')),
                        (''error'', JLeaf (Str ''No SOL-token pool found.''))],
                  JObj [(''timestamp'', JLeaf (Str ''2026-01-01T00:00:01.000Z'')),
                        (''Pool address'', JLeaf (Str ''P1''))]]"
    by (simp add: entry_simps)
  from persist_appends_and_heals_where_readable [OF w, of ?calls] n m w show ?thesis by auto
qed

theorem persist_unreadable_keeps_one_entry_counterexample:
  "writable (write_only_disk Unparseable) ''latest_price.json''
   \<and> \<not> readable (write_only_disk Unparseable) ''latest_price.json''
   \<and> map_sum id (\<lambda>fs'. files fs' ''latest_price.json'')
        (persist_all
           [(''2026-01-01T00:00:00.000Z'', [(''error'', Str ''No SOL-token pool found.'')]),
            (''2026-01-01T00:00:01.000Z'', [(''pool_address'', Str ''P1'')])]
           ''latest_price.json'' (write_only_disk Unparseable))
       = Inr (Parsed (JArr
                [JObj [(''timestamp'', JLeaf (Str ''2026-01-01T00:00:01.000Z'')),
                       (''Pool address'', JLeaf (Str ''P1''))]]))"
  by (simp add: write_only_disk_def saveFormattedResultToJson_def read_array_def entry_simps)

section \<open>The polling driver\<close>

text \<open>
  C1 at a failing input: the first cycle's fetch of the pool state throws (the RPC node
  answers 429), the second cycle's world is healthy. The exception leaves the
  \<open>while (true)\<close> through the \<open>catch\<close> of \<open>main\<close>: it is logged, no record is
  written for the cycle, and the second cycle never runs. The healthy world alone completes
  its cycle and persists one entry.
\<close>

theorem driver_stops_at_first_thrown_error:
  "ended (main sample_publicKey TOKEN_T
            [\<lparr>world = sample_world [cp_pool ''P1'' SOL_MINT TOKEN_T ''10'']
                        (Inl (Error ''429 Too Many Requests'')),
              iso_time = ''2026-01-01T00:00:00.000Z''\<rparr>,
             \<lparr>world = sample_world [cp_pool ''P1'' SOL_MINT TOKEN_T ''10''] (Inr (State 5)),
              iso_time = ''2026-01-01T00:00:01.000Z''\<rparr>]
            (sample_disk Absent))
     = Caught (Error ''429 Too Many Requests'')
   \<and> cycles_done (main sample_publicKey TOKEN_T
            [\<lparr>world = sample_world [cp_pool ''P1'' SOL_MINT TOKEN_T ''10'']
                        (Inl (Error ''429 Too Many Requests'')),
              iso_time = ''2026-01-01T00:00:00.000Z''\<rparr>,
             \<lparr>world = sample_world [cp_pool ''P1'' SOL_MINT TOKEN_T ''10''] (Inr (State 5)),
              iso_time = ''2026-01-01T00:00:01.000Z''\<rparr>]
            (sample_disk Absent)) = 0
   \<and> files (disk (main sample_publicKey TOKEN_T
            [\<lparr>world = sample_world [cp_pool ''P1'' SOL_MINT TOKEN_T ''10'']
                        (Inl (Error ''429 Too Many Requests'')),
              iso_time = ''2026-01-01T00:00:00.000Z''\<rparr>,
             \<lparr>world = sample_world [cp_pool ''P1'' SOL_MINT TOKEN_T ''10''] (Inr (State 5)),
              iso_time = ''2026-01-01T00:00:01.000Z''\<rparr>]
            (sample_disk Absent))) ''latest_price.json'' = Absent
   \<and> console (main sample_publicKey TOKEN_T
            [\<lparr>world = sample_world [cp_pool ''P1'' SOL_MINT TOKEN_T ''10'']
                        (Inl (Error ''429 Too Many Requests'')),
              iso_time = ''2026-01-01T00:00:00.000Z''\<rparr>,
             \<lparr>world = sample_world [cp_pool ''P1'' SOL_MINT TOKEN_T ''10''] (Inr (State 5)),
              iso_time = ''2026-01-01T00:00:01.000Z''\<rparr>]
            (sample_disk Absent)) = [ErrorLine ''429 Too Many Requests'']
   \<and> ended (main sample_publicKey TOKEN_T
            [\<lparr>world = sample_world [cp_pool ''P1'' SOL_MINT TOKEN_T ''10''] (Inr (State 5)),
              iso_time = ''2026-01-01T00:00:01.000Z''\<rparr>]
            (sample_disk Absent)) = Polling
   \<and> cycles_done (main sample_publicKey TOKEN_T
            [\<lparr>world = sample_world [cp_pool ''P1'' SOL_MINT TOKEN_T ''10''] (Inr (State 5)),
              iso_time = ''2026-01-01T00:00:01.000Z''\<rparr>]
            (sample_disk Absent)) = 1"
proof -
  let ?pool = "cp_pool ''P1'' SOL_MINT TOKEN_T ''10''"
  have bad: "getRealtimeSwapPrice (sample_world [?pool] (Inl (Error ''429 Too Many Requests''))) TOKEN_T
               = Some ([FetchPoolState ''P1''], Inl (Error ''429 Too Many Requests''))"
    by (simp add: getRealtimeSwapPrice_def fetchSolTokenPools_def fetch_pages.simps
          findHighestTvlPool_def run_simps sample_simps)
  have good: "\<exists>calls result. getRealtimeSwapPrice (sample_world [?pool] (Inr (State 5))) TOKEN_T
               = Some (calls, Inr result)"
    by (simp add: getRealtimeSwapPrice_def fetchSolTokenPools_def fetch_pages.simps
          findHighestTvlPool_def quote_locals_def run_simps sample_simps ret_def
          dividedBy_exact del: dividedBy.simps)
  have k: "sample_publicKey TOKEN_T = Inr TOKEN_T" by (simp add: sample_publicKey_def)
  from good obtain calls result where
    g: "getRealtimeSwapPrice (sample_world [?pool] (Inr (State 5))) TOKEN_T
          = Some (calls, Inr result)" by blast
  show ?thesis
    by (simp add: main_def k bad g saveFormattedResultToJson_def sample_disk_def Let_def)
qed

end
